theory Spec2Isabelle
  imports Main
begin

section \<open>JavaScript values used by the two App components\<close>

text \<open>
  The repository holds two versions of the React component \<open>App\<close>:
  \<^item> \<open>src/frontend/src/App.js\<close>, called the \<^emph>\<open>frontend\<close> version below: five state
    variables, an effect that calls \<open>fetchWrapData(limit)\<close> whenever \<open>limit\<close> changes, no
    login flag;
  \<^item> \<open>src/unnamed/part_000\<close>, called the \<^emph>\<open>routed\<close> version below: the same five state
    variables and \<open>isLoggedIn\<close>, a session probe on mount, a router whose route
    \<open>/callback\<close> mounts the \<open>CallbackHandler\<close> component, and the same \<open>fetchWrapData\<close>
    and \<open>handleLimitChange\<close>, but no effect that calls \<open>fetchWrapData\<close>.

  A JavaScript number held in \<open>limit\<close> is an integer or \<open>NaN\<close> (what \<open>parseInt\<close> can
  return on the strings a dropdown delivers).
\<close>

datatype jsnum = NaN | Num int

text \<open>\<open>String(n)\<close> for an integer (the template literals \<open>${limit}\<close>, \<open>${response.status}\<close>).\<close>

definition digit_char :: "nat \<Rightarrow> char" where
  "digit_char d = ''0123456789'' ! d"

fun nat_to_string :: "nat \<Rightarrow> string" where
  "nat_to_string n =
     (if n < 10 then [digit_char n] else nat_to_string (n div 10) @ [digit_char (n mod 10)])"

declare nat_to_string.simps [simp del]

definition int_to_string :: "int \<Rightarrow> string" where
  "int_to_string i = (if i < 0 then CHR ''-'' # nat_to_string (nat (- i)) else nat_to_string (nat i))"

fun String :: "jsnum \<Rightarrow> string" where
  "String NaN = ''NaN''"
| "String (Num i) = int_to_string i"

text \<open>
  \<open>parseInt(s, 10)\<close>: leading white space is skipped, one sign is read, then the longest
  run of decimal digits; with no digit the result is \<open>NaN\<close>.
\<close>

definition is_space :: "char \<Rightarrow> bool" where
  "is_space c = (c \<in> set [CHR '' '', CHR 0x09, CHR 0x0A, CHR 0x0B, CHR 0x0C, CHR 0x0D])"

definition is_digit :: "char \<Rightarrow> bool" where
  "is_digit c = (c \<in> set ''0123456789'')"

definition digit_val :: "char \<Rightarrow> int" where
  "digit_val c = of_char c - 48"

definition digits_val :: "string \<Rightarrow> int" where
  "digits_val ds = foldl (\<lambda>a c. 10 * a + digit_val c) 0 ds"

fun strip_sign :: "string \<Rightarrow> int \<times> string" where
  "strip_sign [] = (1, [])"
| "strip_sign (c # cs) =
     (if c = CHR ''-'' then (- 1, cs) else if c = CHR ''+'' then (1, cs) else (1, c # cs))"

definition parseInt10 :: "string \<Rightarrow> jsnum" where
  "parseInt10 s =
     (let (sign, rest) = strip_sign (dropWhile is_space s);
          ds = takeWhile is_digit rest
      in if ds = [] then NaN else Num (sign * digits_val ds))"

text \<open>
  A thrown value. The code throws \<open>Error\<close> itself; \<open>fetch\<close> rejects with a \<open>TypeError\<close> on a
  network failure and \<open>response.json()\<close> with a \<open>SyntaxError\<close> on a body that is not JSON.
  \<open>message\<close> is the field the page prints.
\<close>

datatype js_error = Error string | TypeError string | SyntaxError string

fun message :: "js_error \<Rightarrow> string" where
  "message (Error m) = m"
| "message (TypeError m) = m"
| "message (SyntaxError m) = m"

text \<open>\<open>xs.join(sep)\<close> on an array of strings.\<close>

fun join :: "string \<Rightarrow> string list \<Rightarrow> string" where
  "join sep [] = []"
| "join sep [x] = x"
| "join sep (x # y # ys) = x @ sep @ join sep (y # ys)"

section \<open>Data model and HTTP\<close>

record track =
  name :: string
  artists :: "string list"
  album_image :: string

text \<open>
  The body of \<open>/user-info\<close>. \<open>display_name\<close> is \<open>None\<close> when the property is absent (or
  \<open>null\<close>); the code reads it only through \<open>userData.display_name || 'User'\<close>.
\<close>

record user_profile =
  display_name :: "string option"

text \<open>\<open>v || 'User'\<close> on an optional string: \<open>undefined\<close>, \<open>null\<close> and \<open>''\<close> are falsy.\<close>

fun or_User :: "string option \<Rightarrow> string" where
  "or_User None = ''User''"
| "or_User (Some s) = (if s = [] then ''User'' else s)"

record request =
  url :: string
  http_method :: string
  credentials :: string

text \<open>
  A response as far as the code reads it: the status (\<open>response.ok\<close> is \<open>200 \<le> status \<le> 299\<close>)
  and what \<open>response.json()\<close> settles with. A body that parses is taken to have the shape
  of the data model (a \<open>user_profile\<close>, a list of tracks).
\<close>

record 'a response =
  status :: nat
  json :: "js_error + 'a"

definition ok :: "'a response \<Rightarrow> bool" where
  "ok r = (200 \<le> status r \<and> status r \<le> 299)"

text \<open>What a \<open>fetch\<close> promise settles with: rejected (network failure) or a response.\<close>

datatype 'a fetch_outcome = Rejected js_error | Responded "'a response"

definition backend :: string where
  "backend = ''https://monthlywrap.onrender.com''"

text \<open>\<open>fetch(url, { credentials: 'include' })\<close>: the method defaults to GET.\<close>

definition userInfoRequest :: request where
  "userInfoRequest =
     \<lparr>url = backend @ ''/user-info'', http_method = ''GET'', credentials = ''include''\<rparr>"

text \<open>The top-tracks request of \<open>src/unnamed/part_000\<close>, line 88.\<close>

definition topTracksRequest :: "jsnum \<Rightarrow> request" where
  "topTracksRequest l =
     \<lparr>url = backend @ ''/top-tracks?limit='' @ String l, http_method = ''GET'',
      credentials = ''include''\<rparr>"

text \<open>The top-tracks request of \<open>src/frontend/src/App.js\<close>, line 34 (two slashes).\<close>

definition topTracksRequest_frontend :: "jsnum \<Rightarrow> request" where
  "topTracksRequest_frontend l =
     \<lparr>url = backend @ ''//top-tracks?limit='' @ String l, http_method = ''GET'',
      credentials = ''include''\<rparr>"

text \<open>
  The \<open>.then\<close> callbacks chained on the two fetches of \<open>fetchWrapData\<close>: a response that is
  not \<open>ok\<close> throws, otherwise the promise follows \<open>response.json()\<close>.
\<close>

definition userInfoThen :: "'a fetch_outcome \<Rightarrow> js_error + 'a" where
  "userInfoThen out =
     (case out of
        Rejected e \<Rightarrow> Inl e
      | Responded r \<Rightarrow>
          if \<not> ok r then Inl (Error (''User info HTTP error: '' @ nat_to_string (status r)))
          else json r)"

definition topTracksThen :: "'a fetch_outcome \<Rightarrow> js_error + 'a" where
  "topTracksThen out =
     (case out of
        Rejected e \<Rightarrow> Inl e
      | Responded r \<Rightarrow>
          if \<not> ok r then Inl (Error (''Top tracks HTTP error: '' @ nat_to_string (status r)))
          else json r)"

text \<open>
  \<open>Promise.all([p, q])\<close>: fulfilled with both values when both are fulfilled, rejected
  with the reason of the promise that rejects first. \<open>first\<close> says that \<open>p\<close> settles
  before \<open>q\<close>.
\<close>

definition promiseAll :: "bool \<Rightarrow> js_error + 'a \<Rightarrow> js_error + 'b \<Rightarrow> js_error + 'a \<times> 'b" where
  "promiseAll first p q =
     (case (p, q) of
        (Inr a, Inr b) \<Rightarrow> Inr (a, b)
      | (Inl e, Inr b) \<Rightarrow> Inl e
      | (Inr a, Inl e) \<Rightarrow> Inl e
      | (Inl e1, Inl e2) \<Rightarrow> Inl (if first then e1 else e2))"

section \<open>Component state and the calls a handler makes\<close>

text \<open>
  The \<open>useState\<close> variables. \<open>src/frontend/src/App.js\<close> declares the first five (lines
  10 to 14), \<open>src/unnamed/part_000\<close> the same five and \<open>isLoggedIn\<close> (lines 45 to 50).
\<close>

record wrap_state =
  displayName :: string
  tracks :: "track list"
  limit :: jsnum
  error :: "js_error option"
  isReloading :: bool

record app_state = wrap_state +
  isLoggedIn :: bool

definition initial_wrap_state :: wrap_state where
  "initial_wrap_state =
     \<lparr>displayName = [], tracks = [], limit = Num 5, error = None, isReloading = False\<rparr>"

text \<open>
  The routed version renders inside a router, so what it does and shows also depends on
  the browser's location: the route that matches it (\<open>/callback\<close>, \<open>/\<close> or none) and the
  parameters of its query (\<open>window.location.search\<close>), in order.
\<close>

datatype route = CallbackRoute | HomeRoute | NoRoute

record page_state = app_state +
  route :: route
  search :: "(string \<times> string) list"

definition initial_app_state :: app_state where
  "initial_app_state =
     \<lparr>displayName = [], tracks = [], limit = Num 5, error = None, isReloading = False,
      isLoggedIn = False\<rparr>"

definition initial_page_state :: "route \<Rightarrow> (string \<times> string) list \<Rightarrow> page_state" where
  "initial_page_state r ps =
     \<lparr>displayName = [], tracks = [], limit = Num 5, error = None, isReloading = False,
      isLoggedIn = False, route = r, search = ps\<rparr>"

text \<open>
  The two timer callbacks of \<open>fetchWrapData\<close>, each with the variable it closes over: the
  callback of \<open>setTimeout(..., 300)\<close> holds \<open>limit\<close>, the callback of
  \<open>setTimeout(..., 100)\<close> holds \<open>tracksData\<close>.
\<close>

datatype callback = FadeOut jsnum | FadeIn "track list"

text \<open>
  Everything a handler of the source calls, in the order it calls it: the six state
  setters, \<open>setTimeout\<close>, \<open>Promise.all\<close> over the two fetches, a single \<open>fetch\<close>,
  \<open>navigate\<close> and the console.
\<close>

datatype action =
    SetDisplayName string
  | SetTracks "track list"
  | SetLimit jsnum
  | SetError "js_error option"
  | SetIsReloading bool
  | SetIsLoggedIn bool
  | SetTimeout callback nat
  | PromiseAll request request
  | Fetch request
  | Navigate string
  | ConsoleError string js_error
  | ConsoleLog string

subsection \<open>fetchWrapData\<close>

text \<open>\<open>fetchWrapData(limit)\<close> itself: the synchronous part.\<close>

definition fetchWrapData :: "jsnum \<Rightarrow> action list" where
  "fetchWrapData l = [SetIsReloading True, SetTimeout (FadeOut l) 300]"

text \<open>
  The bodies of the two timer callbacks. The top-tracks request is the one line in which
  the two files differ, so it is a parameter.
\<close>

fun timeout_callback :: "(jsnum \<Rightarrow> request) \<Rightarrow> callback \<Rightarrow> action list" where
  "timeout_callback topTracks (FadeOut l) = [PromiseAll userInfoRequest (topTracks l)]"
| "timeout_callback topTracks (FadeIn tracksData) = [SetTracks tracksData, SetIsReloading False]"

text \<open>The \<open>.then\<close> and \<open>.catch\<close> callbacks on \<open>Promise.all\<close>.\<close>

fun onFulfilled :: "user_profile \<times> track list \<Rightarrow> action list" where
  "onFulfilled (userData, tracksData) =
     [SetDisplayName (or_User (display_name userData)), SetTimeout (FadeIn tracksData) 100]"

definition onRejected :: "js_error \<Rightarrow> action list" where
  "onRejected err = [ConsoleError ''Error fetching data:'' err, SetError (Some err), SetIsReloading False]"

definition allSettled ::
  "bool \<Rightarrow> user_profile fetch_outcome \<Rightarrow> track list fetch_outcome \<Rightarrow> action list" where
  "allSettled first userOut tracksOut =
     (case promiseAll first (userInfoThen userOut) (topTracksThen tracksOut) of
        Inr both \<Rightarrow> onFulfilled both
      | Inl err \<Rightarrow> onRejected err)"

subsection \<open>handleLimitChange and the effect on limit\<close>

text \<open>\<open>handleLimitChange(event)\<close>, given \<open>event.target.value\<close>.\<close>

definition handleLimitChange :: "string \<Rightarrow> action list" where
  "handleLimitChange v = [SetLimit (parseInt10 v)]"

text \<open>
  \<open>useEffect(() => { fetchWrapData(limit); }, [limit])\<close> of \<open>src/frontend/src/App.js\<close>,
  lines 62 to 64, after a render in which \<open>limit\<close> went from \<open>prev\<close> to \<open>cur\<close>: React runs
  the effect when the dependency is not the same value. (On mount it always runs.)
\<close>

definition limitEffect :: "jsnum \<Rightarrow> jsnum \<Rightarrow> action list" where
  "limitEffect prev cur = (if prev = cur then [] else fetchWrapData cur)"

subsection \<open>The session probe of the routed version\<close>

text \<open>\<open>src/unnamed/part_000\<close>, lines 55 to 69: the effect with no dependency.\<close>

definition sessionProbe :: "action list" where
  "sessionProbe = [Fetch userInfoRequest]"

definition probeThen :: "'a fetch_outcome \<Rightarrow> js_error + 'a" where
  "probeThen out =
     (case out of
        Rejected e \<Rightarrow> Inl e
      | Responded r \<Rightarrow> if ok r then json r else Inl (Error ''User not logged in''))"

definition probeSettled :: "user_profile fetch_outcome \<Rightarrow> action list" where
  "probeSettled out =
     (case probeThen out of
        Inr userData \<Rightarrow> [SetDisplayName (or_User (display_name userData)), SetIsLoggedIn True]
      | Inl err \<Rightarrow> [SetIsLoggedIn False])"

subsection \<open>CallbackHandler\<close>

text \<open>
  \<open>src/unnamed/part_000\<close>, lines 9 to 37. \<open>URLSearchParams\<close> is the list of the query's
  name and value pairs, in order; \<open>get\<close> returns the first value of a name or \<open>null\<close>.
\<close>

definition callbackRequest :: "string \<Rightarrow> request" where
  "callbackRequest code =
     \<lparr>url = backend @ ''/callback?code='' @ code, http_method = ''GET'',
      credentials = ''include''\<rparr>"

text \<open>The effect of \<open>CallbackHandler\<close>; \<open>if (code)\<close> is false on \<open>null\<close> and on \<open>''\<close>.\<close>

definition CallbackHandler :: "(string \<times> string) list \<Rightarrow> action list" where
  "CallbackHandler urlParams =
     (case map_of urlParams ''code'' of
        None \<Rightarrow> [Navigate ''/'']
      | Some code \<Rightarrow> if code = [] then [Navigate ''/''] else [Fetch (callbackRequest code)])"

text \<open>
  What runs when that fetch settles: \<open>response.json()\<close> whatever the status, then the
  \<open>.then\<close> callback, or the \<open>.catch\<close> callback on a rejection of either.
\<close>

definition callbackSettled :: "'a fetch_outcome \<Rightarrow> action list" where
  "callbackSettled out =
     (case (case out of Rejected e \<Rightarrow> Inl e | Responded r \<Rightarrow> json r) of
        Inr data \<Rightarrow> [ConsoleLog ''Auth Success:'', Navigate ''/'']
      | Inl err \<Rightarrow> [ConsoleError ''Auth Error:'' err, Navigate ''/''])"

section \<open>The state setters\<close>

fun set_wrap :: "action \<Rightarrow> 'a wrap_state_scheme \<Rightarrow> 'a wrap_state_scheme" where
  "set_wrap (SetDisplayName s) st = st\<lparr>displayName := s\<rparr>"
| "set_wrap (SetTracks ts) st = st\<lparr>tracks := ts\<rparr>"
| "set_wrap (SetLimit l) st = st\<lparr>limit := l\<rparr>"
| "set_wrap (SetError e) st = st\<lparr>error := e\<rparr>"
| "set_wrap (SetIsReloading b) st = st\<lparr>isReloading := b\<rparr>"
| "set_wrap _ st = st"

fun set_app :: "action \<Rightarrow> 'a app_state_scheme \<Rightarrow> 'a app_state_scheme" where
  "set_app (SetIsLoggedIn b) st = st\<lparr>isLoggedIn := b\<rparr>"
| "set_app a st = set_wrap a st"

text \<open>
  The routes of \<open>src/unnamed/part_000\<close> (lines 125 and 128). \<open>navigate(p)\<close> moves the
  location to the path \<open>p\<close>, without query parameters.
\<close>

definition routes :: "(string \<times> route) list" where
  "routes = [(''/callback'', CallbackRoute), (''/'', HomeRoute)]"

definition match_route :: "string \<Rightarrow> route" where
  "match_route p = (case map_of routes p of Some r \<Rightarrow> r | None \<Rightarrow> NoRoute)"

fun set_page :: "action \<Rightarrow> page_state \<Rightarrow> page_state" where
  "set_page (Navigate p) st = st\<lparr>route := match_route p, search := []\<rparr>"
| "set_page a st = set_app a st"

section \<open>The event loop\<close>

text \<open>
  What the browser holds for a mounted component between two callbacks: the state, the
  clock (milliseconds), the timers and requests whose callback has not run yet, the
  requests sent so far and the calls made so far with the time of each.
  A timer set at time \<open>t\<close> with delay \<open>d\<close> is due at \<open>t + d\<close> and fires no earlier.
\<close>

datatype pending = Timer nat callback | Join | Probe | Callback

record 's world =
  ui :: 's
  mounted :: bool
  now :: nat
  pending :: "pending list"
  issued :: "request list"
  trace :: "(nat \<times> action) list"

definition initial_world :: "'s \<Rightarrow> 's world" where
  "initial_world st =
     \<lparr>ui = st, mounted = False, now = 0, pending = [], issued = [], trace = []\<rparr>"

fun schedule :: "nat \<Rightarrow> action \<Rightarrow> pending list" where
  "schedule t (SetTimeout cb d) = [Timer (t + d) cb]"
| "schedule t (PromiseAll p q) = [Join]"
| "schedule t (Fetch r) = [if r = userInfoRequest then Probe else Callback]"
| "schedule t _ = []"

fun requests_of :: "action \<Rightarrow> request list" where
  "requests_of (PromiseAll p q) = [p, q]"
| "requests_of (Fetch r) = [r]"
| "requests_of _ = []"

text \<open>One call of a handler, made at the current time.\<close>

definition perform :: "(action \<Rightarrow> 's \<Rightarrow> 's) \<Rightarrow> 's world \<Rightarrow> action \<Rightarrow> 's world" where
  "perform upd w a =
     w\<lparr>ui := upd a (ui w),
       pending := pending w @ schedule (now w) a,
       issued := issued w @ requests_of a,
       trace := trace w @ [(now w, a)]\<rparr>"

text \<open>
  The events: the component mounts; the user picks the dropdown option with the given
  value; a timer fires; the \<open>Promise.all\<close> of a cycle settles (with what the two fetches
  settled with, and whether the user-info promise settled first); the probe settles.
\<close>

datatype event =
    Mount
  | Change string
  | TimerFires callback
  | JoinSettles bool "user_profile fetch_outcome" "track list fetch_outcome"
  | ProbeSettles "user_profile fetch_outcome"
  | CallbackSettles "unit fetch_outcome"

text \<open>The values of the dropdown's options: \<open>[...Array(10).keys()].map(i => i + 1)\<close>.\<close>

definition option_values :: "string list" where
  "option_values = map (\<lambda>i. nat_to_string (i + 1)) [0..<10]"

text \<open>
  A version of the component: how it applies a state setter, which calls it makes on an
  event, and whether its page shows the dropdown.
\<close>

record 's component =
  update :: "action \<Rightarrow> 's \<Rightarrow> 's"
  handler :: "event \<Rightarrow> 's \<Rightarrow> action list"
  dropdown_shown :: "'s \<Rightarrow> bool"

text \<open>The pending entry an event at time \<open>t\<close> answers.\<close>

fun awaited :: "nat \<Rightarrow> event \<Rightarrow> pending \<Rightarrow> bool" where
  "awaited t (TimerFires cb) (Timer due cb') = (cb' = cb \<and> due \<le> t)"
| "awaited t (JoinSettles first userOut tracksOut) Join = True"
| "awaited t (ProbeSettles out) Probe = True"
| "awaited t (CallbackSettles out) Callback = True"
| "awaited t _ _ = False"

fun remove_first :: "('a \<Rightarrow> bool) \<Rightarrow> 'a list \<Rightarrow> 'a list" where
  "remove_first P [] = []"
| "remove_first P (x # xs) = (if P x then xs else x # remove_first P xs)"

fun enabled :: "'s component \<Rightarrow> nat \<Rightarrow> event \<Rightarrow> 's world \<Rightarrow> bool" where
  "enabled c t Mount w = (now w \<le> t \<and> \<not> mounted w)"
| "enabled c t (Change v) w =
     (now w \<le> t \<and> mounted w \<and> dropdown_shown c (ui w) \<and> v \<in> set option_values)"
| "enabled c t ev w = (now w \<le> t \<and> list_ex (awaited t ev) (pending w))"

text \<open>
  One turn of the event loop: an event that cannot happen gives \<open>None\<close>; otherwise the
  clock moves to the event's time, the pending entry it answers is gone, and the
  handler's calls are made in order.
\<close>

definition step :: "'s component \<Rightarrow> nat \<Rightarrow> event \<Rightarrow> 's world \<Rightarrow> 's world option" where
  "step c t ev w =
     (if enabled c t ev w
      then Some (foldl (perform (update c))
                   (w\<lparr>mounted := True, now := t,
                      pending := remove_first (awaited t ev) (pending w)\<rparr>)
                   (handler c ev (ui w)))
      else None)"

fun run :: "'s component \<Rightarrow> (nat \<times> event) list \<Rightarrow> 's world \<Rightarrow> 's world option" where
  "run c [] w = Some w"
| "run c ((t, ev) # es) w = (case step c t ev w of None \<Rightarrow> None | Some w' \<Rightarrow> run c es w')"

subsection \<open>The two versions\<close>

text \<open>
  \<open>src/frontend/src/App.js\<close>: the effect on \<open>[limit]\<close> runs on mount and after a render that
  changed \<open>limit\<close>; the page always shows the dropdown.
\<close>

fun handler_frontend :: "event \<Rightarrow> wrap_state \<Rightarrow> action list" where
  "handler_frontend Mount st = fetchWrapData (limit st)"
| "handler_frontend (Change v) st = handleLimitChange v @ limitEffect (limit st) (parseInt10 v)"
| "handler_frontend (TimerFires cb) st = timeout_callback topTracksRequest_frontend cb"
| "handler_frontend (JoinSettles first userOut tracksOut) st = allSettled first userOut tracksOut"
| "handler_frontend (ProbeSettles out) st = []"
| "handler_frontend (CallbackSettles out) st = []"

definition frontend :: "wrap_state component" where
  "frontend = \<lparr>update = set_wrap, handler = handler_frontend, dropdown_shown = (\<lambda>st. True)\<rparr>"

text \<open>
  \<open>src/unnamed/part_000\<close>. On the mount the effects run, those of a child before those of
  its parent: the effect of \<open>CallbackHandler\<close> if the location is on its route, then the
  session probe of \<open>App\<close>. A change of the dropdown calls \<open>setLimit\<close> and nothing else; the
  dropdown is on the page on the home route when \<open>isLoggedIn\<close> holds. \<open>fetchWrapData\<close> and
  its callbacks are defined as in the other file (with the other top-tracks URL), so a
  timer or a join would run them.
\<close>

fun handler_routed :: "event \<Rightarrow> page_state \<Rightarrow> action list" where
  "handler_routed Mount st =
     (if route st = CallbackRoute then CallbackHandler (search st) else []) @ sessionProbe"
| "handler_routed (Change v) st = handleLimitChange v"
| "handler_routed (TimerFires cb) st = timeout_callback topTracksRequest cb"
| "handler_routed (JoinSettles first userOut tracksOut) st = allSettled first userOut tracksOut"
| "handler_routed (ProbeSettles out) st = probeSettled out"
| "handler_routed (CallbackSettles out) st = callbackSettled out"

definition routed :: "page_state component" where
  "routed =
     \<lparr>update = set_page, handler = handler_routed,
      dropdown_shown = (\<lambda>st. route st = HomeRoute \<and> isLoggedIn st)\<rparr>"

section \<open>Rendering\<close>

text \<open>
  What a component returns: text and elements with their attributes (JSX props, the
  value as a string) and children. An expression in braces that is \<open>false\<close> or \<open>null\<close>
  renders nothing; a fragment's children stand in its place.
\<close>

datatype node = Text string | Element string "(string \<times> string) list" "node list"

text \<open>\<open><h1>Hello {displayName}, here is your Monthly Wrap!</h1>\<close>\<close>

definition greeting :: "string \<Rightarrow> node" where
  "greeting dn = Element ''h1'' [] [Text ''Hello '', Text dn, Text '', here is your Monthly Wrap!'']"

definition option_node :: "nat \<Rightarrow> node" where
  "option_node i =
     Element ''option'' [(''key'', nat_to_string (i + 1)), (''value'', nat_to_string (i + 1))]
       [Text (nat_to_string (i + 1))]"

definition limit_select :: "jsnum \<Rightarrow> node" where
  "limit_select l =
     Element ''select''
       [(''id'', ''limitSelect''), (''value'', String l), (''onChange'', ''handleLimitChange''),
        (''className'', ''dropdown-select'')]
       (map option_node [0..<10])"

definition dropdown :: "jsnum \<Rightarrow> node" where
  "dropdown l =
     Element ''div'' [(''className'', ''dropdown-container'')]
       [Element ''label'' [(''htmlFor'', ''limitSelect''), (''className'', ''dropdown-label'')]
          [Element ''p'' [] [Text ''Select number of tracks:'']],
        limit_select l]"

text \<open>\<open>{error && <p>Error: {error.message}</p>}\<close>\<close>

definition error_view :: "js_error option \<Rightarrow> node list" where
  "error_view e =
     (case e of None \<Rightarrow> [] | Some err \<Rightarrow> [Element ''p'' [] [Text ''Error: '', Text (message err)]])"

text \<open>One card of \<open>tracks.map((track, index) => ...)\<close>.\<close>

definition card :: "nat \<times> track \<Rightarrow> node" where
  "card it =
     (case it of (index, track) \<Rightarrow>
        Element ''div'' [(''key'', nat_to_string index), (''className'', ''card'')]
          [Element ''img'' [(''src'', album_image track), (''alt'', name track)] [],
           Element ''h3'' [] [Text (name track)],
           Element ''p'' [] [Text (join '', '' (artists track))]])"

definition no_tracks :: node where
  "no_tracks = Element ''p'' [] [Text ''No tracks found.'']"

definition card_container :: "track list \<Rightarrow> bool \<Rightarrow> node" where
  "card_container ts reloading =
     Element ''div''
       [(''className'', ''card-container '' @ (if reloading then ''cards-reloading'' else []))]
       ((if length ts = 0 \<and> \<not> reloading then [no_tracks] else []) @ map card (enumerate 0 ts))"

text \<open>
  The greeting, the dropdown, the error line and the card grid: the whole page of
  \<open>src/frontend/src/App.js\<close> (lines 76 to 113) and the logged-in branch of
  \<open>src/unnamed/part_000\<close> (lines 140 to 176).
\<close>

definition wrap_view :: "'a wrap_state_scheme \<Rightarrow> node list" where
  "wrap_view st =
     [greeting (displayName st), dropdown (limit st)] @ error_view (error st) @
     [card_container (tracks st) (isReloading st)]"

definition App_frontend :: "wrap_state \<Rightarrow> node" where
  "App_frontend st = Element ''div'' [(''className'', ''container'')] (wrap_view st)"

text \<open>\<open>src/unnamed/part_000\<close>: the login call-to-action (lines 132 to 138).\<close>

definition login_button :: node where
  "login_button =
     Element ''a'' [(''href'', backend @ ''/login''), (''className'', ''login-button'')]
       [Text ''Login with Spotify'']"

definition login_container :: node where
  "login_container =
     Element ''div'' [(''className'', ''login-container'')]
       [Element ''h1'' [] [Text ''Welcome to Monthly Wrap''],
        Element ''p'' [] [Text ''See your top Spotify tracks for the past 4 weeks.''],
        login_button]"

text \<open>The element of the route \<open>/\<close> (lines 128 to 179).\<close>

definition home :: "'a app_state_scheme \<Rightarrow> node" where
  "home st =
     Element ''div'' [(''className'', ''container'')]
       (if \<not> isLoggedIn st then [login_container] else wrap_view st)"

text \<open>
  What \<open>CallbackHandler\<close> returns (line 36), and what \<open>App\<close> renders: the element of the
  route that matches the location, nothing if none does.
\<close>

definition CallbackHandler_view :: node where
  "CallbackHandler_view = Element ''p'' [] [Text ''Logging in...'']"

definition App_routed :: "page_state \<Rightarrow> node list" where
  "App_routed st =
     (case route st of
        CallbackRoute \<Rightarrow> [CallbackHandler_view]
      | HomeRoute \<Rightarrow> [home st]
      | NoRoute \<Rightarrow> [])"

subsection \<open>Looking into a rendered page\<close>

fun children :: "node \<Rightarrow> node list" where
  "children (Text s) = []"
| "children (Element tg attrs cs) = cs"

fun attribute :: "string \<Rightarrow> node \<Rightarrow> string option" where
  "attribute a (Text s) = None"
| "attribute a (Element tg attrs cs) = map_of attrs a"

fun tag :: "node \<Rightarrow> string option" where
  "tag (Text s) = None"
| "tag (Element tg attrs cs) = Some tg"

text \<open>The node and everything below it, in document order.\<close>

fun descendants :: "node \<Rightarrow> node list" where
  "descendants (Text s) = [Text s]"
| "descendants (Element tg attrs cs) = Element tg attrs cs # concat (map descendants cs)"

text \<open>The class names of a \<open>className\<close>: its words between spaces.\<close>

fun words_from :: "string \<Rightarrow> string \<Rightarrow> string list" where
  "words_from cur [] = (if cur = [] then [] else [cur])"
| "words_from cur (c # cs) =
     (if c = CHR '' '' then (if cur = [] then [] else [cur]) @ words_from [] cs
      else words_from (cur @ [c]) cs)"

definition classes :: "node \<Rightarrow> string list" where
  "classes n = (case attribute ''className'' n of None \<Rightarrow> [] | Some cn \<Rightarrow> words_from [] cn)"

definition has_class :: "string \<Rightarrow> node \<Rightarrow> bool" where
  "has_class c n = (c \<in> set (classes n))"

definition by_class :: "string \<Rightarrow> node \<Rightarrow> node list" where
  "by_class c n = filter (has_class c) (descendants n)"

definition by_tag :: "string \<Rightarrow> node \<Rightarrow> node list" where
  "by_tag tg n = filter (\<lambda>x. tag x = Some tg) (descendants n)"

text \<open>The children of the card grid (the element of class \<open>card-container\<close>), if the page has one.\<close>

definition grid_children :: "node \<Rightarrow> node list" where
  "grid_children page = concat (map children (by_class ''card-container'' page))"

definition cards :: "node \<Rightarrow> node list" where
  "cards page = filter (has_class ''card'') (grid_children page)"

section \<open>Notions used to state the properties\<close>

text \<open>
  The event starts a fade cycle of the frontend version with limit \<open>n\<close>: the mount, or a
  dropdown change to a value other than the current limit.
\<close>

definition starts_cycle :: "event \<Rightarrow> wrap_state world \<Rightarrow> jsnum \<Rightarrow> bool" where
  "starts_cycle ev w n =
     (case ev of
        Mount \<Rightarrow> \<not> mounted w \<and> n = limit (ui w)
      | Change v \<Rightarrow> mounted w \<and> v \<in> set option_values \<and> n = parseInt10 v \<and> n \<noteq> limit (ui w)
      | _ \<Rightarrow> False)"




text \<open>
  How often \<open>isReloading\<close> goes from true to false over the calls of a trace, from the
  value \<open>b\<close> it has before them.
\<close>

fun falling_edges :: "bool \<Rightarrow> (nat \<times> action) list \<Rightarrow> nat" where
  "falling_edges b [] = 0"
| "falling_edges b ((t, SetIsReloading b') # tr) =
     (if b \<and> \<not> b' then 1 else 0) + falling_edges b' tr"
| "falling_edges b (ta # tr) = falling_edges b tr"

text \<open>The calls of \<open>setIsReloading\<close> in a trace, and how many of them pass \<open>b\<close>.\<close>

definition reloading_calls :: "(nat \<times> action) list \<Rightarrow> (nat \<times> action) list" where
  "reloading_calls tr =
     filter (\<lambda>ta. case snd ta of SetIsReloading b \<Rightarrow> True | _ \<Rightarrow> False) tr"



text \<open>The event is not a \<open>Promise.all\<close> that rejects.\<close>

definition fulfils :: "nat \<times> event \<Rightarrow> bool" where
  "fulfils tev =
     (case snd tev of
        JoinSettles first userOut tracksOut \<Rightarrow>
          (case promiseAll first (userInfoThen userOut) (topTracksThen tracksOut) of
             Inr both \<Rightarrow> True | Inl err \<Rightarrow> False)
      | _ \<Rightarrow> True)"


text \<open>The event is not a change of the dropdown.\<close>

definition no_change :: "nat \<times> event \<Rightarrow> bool" where
  "no_change tev = (case snd tev of Change v \<Rightarrow> False | _ \<Rightarrow> True)"




section \<open>Basic facts\<close>

lemma int_to_string_5: "int_to_string 5 = ''5''"
  by code_simp

lemma parseInt10_3: "parseInt10 ''3'' = Num 3"
  by code_simp

lemma parseInt10_examples:
  "parseInt10 '' 10px'' = Num 10 \<and> parseInt10 ''-7'' = Num (- 7) \<and> parseInt10 ''x'' = NaN"
  by code_simp

lemma status_string_404: "nat_to_string 404 = ''404''"
  by code_simp

text \<open>The dropdown offers 1 to 10, and \<open>parseInt\<close> reads each value back.\<close>

lemma option_values_eq: "option_values = map (\<lambda>c. [c]) ''123456789'' @ [''10'']"
  by code_simp

lemma parseInt10_option_values: "map parseInt10 option_values = map (\<lambda>i. Num (int i)) [1..<11]"
  by code_simp

lemma remove_first_none [simp]: "(\<And>x. \<not> P x) \<Longrightarrow> remove_first P xs = xs"
  by (induction xs) auto




lemma allSettled_cases:
  obtains (fulfilled) u trs where
      "promiseAll first userOut' tracksOut' = Inr (u, trs)"
  | (rejected) e where "promiseAll first userOut' tracksOut' = Inl e"
  by (cases "promiseAll first userOut' tracksOut'") auto

section \<open>The top-tracks request\<close>

lemma top_tracks_request_routed:
  "url (topTracksRequest l) = backend @ ''/top-tracks?limit='' @ String l \<and>
   http_method (topTracksRequest l) = ''GET'' \<and> credentials (topTracksRequest l) = ''include''"
  by (simp add: topTracksRequest_def)

lemma top_tracks_request_frontend:
  "url (topTracksRequest_frontend l) = backend @ ''//top-tracks?limit='' @ String l \<and>
   url (topTracksRequest_frontend l) \<noteq> backend @ ''/top-tracks?limit='' @ String l \<and>
   http_method (topTracksRequest_frontend l) = ''GET'' \<and>
   credentials (topTracksRequest_frontend l) = ''include''"
  by (simp add: topTracksRequest_frontend_def)

text \<open>
  C6 (the code departs from the claim). The claim: for every limit \<open>N\<close> the top-tracks
  request of the wrap loader is a credentialed GET to the backend path
  \<open>/top-tracks?limit=N\<close>. \<open>src/unnamed/part_000\<close> builds that request
  (\<open>top_tracks_request_routed\<close>). \<open>src/frontend/src/App.js\<close>, line 34, writes the path with
  two slashes: when the component mounts with the default limit 5 and the fade-out timer
  fires, the two requests sent are \<open>/user-info\<close> and \<open>//top-tracks?limit=5\<close>.
\<close>

theorem frontend_requests_double_slash:
  "map_option (\<lambda>w. map url (issued w))
     (run frontend [(0, Mount), (300, TimerFires (FadeOut (Num 5)))]
        (initial_world initial_wrap_state)) =
   Some [''https://monthlywrap.onrender.com/user-info'',
         ''https://monthlywrap.onrender.com//top-tracks?limit=5'']"
  by (simp add: step_def frontend_def perform_def initial_world_def initial_wrap_state_def
      fetchWrapData_def userInfoRequest_def topTracksRequest_frontend_def backend_def int_to_string_5)

section \<open>What starts a fade cycle\<close>

text \<open>
  In the frontend version a handler calls \<open>fetchWrapData\<close> exactly on the mount and on a
  dropdown change that changes \<open>limit\<close>; no timer, response or probe does.
\<close>

lemma frontend_cycle_trigger:
  "(SetTimeout (FadeOut l) 300 \<in> set (handler_frontend ev st)) =
   (ev = Mount \<and> l = limit st \<or> (\<exists>v. ev = Change v \<and> l = parseInt10 v \<and> l \<noteq> limit st))"
proof (cases ev)
  case (TimerFires cb)
  then show ?thesis by (cases cb) simp_all
next
  case (JoinSettles first userOut tracksOut)
  then show ?thesis
    by (cases first "userInfoThen userOut" "topTracksThen tracksOut" rule: allSettled_cases)
       (auto simp: allSettled_def onRejected_def)
qed (auto simp: fetchWrapData_def handleLimitChange_def limitEffect_def)

text \<open>
  In the routed version no handler reachable from the mount calls it, whatever the
  location the page is opened on.
\<close>

lemma callback_request_is_not_probe: "callbackRequest code \<noteq> userInfoRequest"
  by (simp add: callbackRequest_def userInfoRequest_def)

lemma CallbackHandler_cases:
  obtains (home) "CallbackHandler ps = [Navigate ''/'']"
  | (request) code where "CallbackHandler ps = [Fetch (callbackRequest code)]"
proof (cases "map_of ps ''code''")
  case None
  then show ?thesis by (intro home) (simp add: CallbackHandler_def)
next
  case (Some code)
  show ?thesis
  proof (cases "code = []")
    case True
    with Some show ?thesis by (intro home) (simp add: CallbackHandler_def)
  next
    case False
    with Some show ?thesis by (intro request [of code]) (simp add: CallbackHandler_def)
  qed
qed

lemma callbackSettled_cases:
  obtains (success) "callbackSettled out = [ConsoleLog ''Auth Success:'', Navigate ''/'']"
  | (failure) err where "callbackSettled out = [ConsoleError ''Auth Error:'' err, Navigate ''/'']"
proof (cases "case out of Rejected e \<Rightarrow> Inl e | Responded r \<Rightarrow> json r")
  case (Inl err)
  then show ?thesis by (intro failure [of err]) (simp add: callbackSettled_def)
next
  case (Inr data)
  then show ?thesis by (intro success) (simp add: callbackSettled_def)
qed



text \<open>
  C2 (the code departs from the claim). The claim: the fetch cycle starts on the initial
  mount and on every change of the limit, and on no other event. The frontend version
  does so (\<open>frontend_cycle_trigger\<close>). \<open>src/unnamed/part_000\<close> defines \<open>fetchWrapData\<close> and
  never calls it: opened on the home route, the mount sends the session probe only, and
  picking 3 in the dropdown of a logged-in session sets \<open>limit\<close> and starts nothing: no
  timer, no request, \<open>isReloading\<close> still false, the track list still empty.
\<close>

theorem routed_limit_change_starts_nothing:
  "run routed
     [(0, Mount),
      (40, ProbeSettles (Responded \<lparr>status = 200, json = Inr \<lparr>display_name = Some ''Ann''\<rparr>\<rparr>)),
      (1000, Change ''3'')]
     (initial_world (initial_page_state HomeRoute [])) =
   Some \<lparr>ui = \<lparr>displayName = ''Ann'', tracks = [], limit = Num 3, error = None,
               isReloading = False, isLoggedIn = True, route = HomeRoute, search = []\<rparr>,
         mounted = True, now = 1000, pending = [], issued = [userInfoRequest],
         trace = [(0, Fetch userInfoRequest), (40, SetDisplayName ''Ann''),
                  (40, SetIsLoggedIn True), (1000, SetLimit (Num 3))]\<rparr>"
  by (simp add: step_def routed_def perform_def initial_world_def initial_page_state_def
      sessionProbe_def probeSettled_def probeThen_def ok_def handleLimitChange_def
      option_values_eq parseInt10_3)


section \<open>One fade cycle of the frontend version\<close>

text \<open>
  The cycles below start in a world with nothing pending, so that the timers and the
  join that follow belong to the cycle. The starting event is the mount or a dropdown
  change to a new value; \<open>n\<close> is the limit the cycle fetches for.
\<close>

lemma entry_step:
  assumes "starts_cycle ev w n" and "pending w = []"
  shows "step frontend t0 ev w =
     (if now w \<le> t0 then
        Some (w\<lparr>ui := (ui w)\<lparr>limit := n, isReloading := True\<rparr>, mounted := True, now := t0,
               pending := [Timer (t0 + 300) (FadeOut n)],
               trace := trace w @ map (Pair t0)
                 ((case ev of Change v \<Rightarrow> [SetLimit n] | _ \<Rightarrow> []) @
                  [SetIsReloading True, SetTimeout (FadeOut n) 300])\<rparr>)
      else None)"
  using assms
  by (cases ev)
     (auto simp: starts_cycle_def step_def frontend_def perform_def handleLimitChange_def
        limitEffect_def fetchWrapData_def)

text \<open>Both requests succeed exactly when \<open>Promise.all\<close> is fulfilled.\<close>

lemma both_succeed:
  "(promiseAll first (userInfoThen userOut) (topTracksThen tracksOut) = Inr (u, trs)) =
   (\<exists>r1 r2. userOut = Responded r1 \<and> 200 \<le> status r1 \<and> status r1 \<le> 299 \<and> json r1 = Inr u \<and>
            tracksOut = Responded r2 \<and> 200 \<le> status r2 \<and> status r2 \<le> 299 \<and>
            json r2 = Inr trs)"
  by (auto simp: promiseAll_def userInfoThen_def topTracksThen_def ok_def
      split: sum.splits fetch_outcome.splits if_splits)





text \<open>The cycle up to the moment both responses are in: the fade-in timer is pending.\<close>

lemma fulfilled_before_fade_in:
  assumes "starts_cycle ev w n" and "pending w = []" and "now w \<le> t0"
    and "promiseAll first (userInfoThen userOut) (topTracksThen tracksOut) = Inr (u, trs)"
  shows "run frontend [(t0, ev), (t1, TimerFires (FadeOut n)),
            (t2, JoinSettles first userOut tracksOut)] w =
     (if t0 + 300 \<le> t1 \<and> t1 \<le> t2 then
        Some (w\<lparr>ui := (ui w)\<lparr>limit := n, displayName := or_User (display_name u),
                            isReloading := True\<rparr>,
               mounted := True, now := t2, pending := [Timer (t2 + 100) (FadeIn trs)],
               issued := issued w @ [userInfoRequest, topTracksRequest_frontend n],
               trace := trace w @ map (Pair t0)
                 ((case ev of Change v \<Rightarrow> [SetLimit n] | _ \<Rightarrow> []) @
                  [SetIsReloading True, SetTimeout (FadeOut n) 300]) @
                 [(t1, PromiseAll userInfoRequest (topTracksRequest_frontend n)),
                  (t2, SetDisplayName (or_User (display_name u))),
                  (t2, SetTimeout (FadeIn trs) 100)]\<rparr>)
      else None)"
  using assms(2-)
  apply (simp add: entry_step [OF assms(1,2)])
  apply (simp add: step_def frontend_def perform_def allSettled_def)
  done

lemma fulfilled_cycle:
  assumes "starts_cycle ev w n" and "pending w = []" and "now w \<le> t0"
    and "promiseAll first (userInfoThen userOut) (topTracksThen tracksOut) = Inr (u, trs)"
  shows "run frontend [(t0, ev), (t1, TimerFires (FadeOut n)),
            (t2, JoinSettles first userOut tracksOut), (t3, TimerFires (FadeIn trs))] w =
     (if t0 + 300 \<le> t1 \<and> t1 \<le> t2 \<and> t2 + 100 \<le> t3 then
        Some (w\<lparr>ui := (ui w)\<lparr>limit := n, displayName := or_User (display_name u),
                            tracks := trs, isReloading := False\<rparr>,
               mounted := True, now := t3,
               issued := issued w @ [userInfoRequest, topTracksRequest_frontend n],
               trace := trace w @ map (Pair t0)
                 ((case ev of Change v \<Rightarrow> [SetLimit n] | _ \<Rightarrow> []) @
                  [SetIsReloading True, SetTimeout (FadeOut n) 300]) @
                 [(t1, PromiseAll userInfoRequest (topTracksRequest_frontend n)),
                  (t2, SetDisplayName (or_User (display_name u))),
                  (t2, SetTimeout (FadeIn trs) 100),
                  (t3, SetTracks trs), (t3, SetIsReloading False)]\<rparr>)
      else None)"
  using assms(2-)
  apply (simp add: entry_step [OF assms(1,2)])
  apply (simp add: step_def frontend_def perform_def allSettled_def)
  done


text \<open>
  \<open>setDisplayName\<close> is called by the callbacks of a join that is fulfilled, with the
  returned name or \<open>User\<close>, and by no other handler; \<open>setTracks\<close> by a fade-in timer and by
  no other handler.
\<close>

lemma display_name_only_on_success:
  "(SetDisplayName d \<in> set (handler_frontend ev st)) =
   (\<exists>first r1 r2 u trs.
      ev = JoinSettles first (Responded r1) (Responded r2) \<and>
      200 \<le> status r1 \<and> status r1 \<le> 299 \<and> json r1 = Inr u \<and>
      200 \<le> status r2 \<and> status r2 \<le> 299 \<and> json r2 = Inr trs \<and>
      d = (case display_name u of None \<Rightarrow> ''User'' | Some s \<Rightarrow> if s = [] then ''User'' else s))"
proof (cases ev)
  case (TimerFires cb)
  then show ?thesis by (cases cb) simp_all
next
  case (JoinSettles first userOut tracksOut)
  show ?thesis
  proof (cases first "userInfoThen userOut" "topTracksThen tracksOut" rule: allSettled_cases)
    case (fulfilled u trs)
    from fulfilled [unfolded both_succeed] fulfilled JoinSettles show ?thesis
      by (cases "display_name u") (auto simp: allSettled_def)
  next
    case (rejected e)
    then have "\<not> (\<exists>r1 r2 u trs. userOut = Responded r1 \<and> 200 \<le> status r1 \<and>
        status r1 \<le> 299 \<and> json r1 = Inr u \<and> tracksOut = Responded r2 \<and>
        200 \<le> status r2 \<and> status r2 \<le> 299 \<and> json r2 = Inr trs)"
      using both_succeed [of first userOut tracksOut] by auto
    with rejected JoinSettles show ?thesis by (auto simp: allSettled_def onRejected_def)
  qed
qed (auto simp: fetchWrapData_def handleLimitChange_def limitEffect_def)



section \<open>The callbacks of a cycle in any world\<close>

text \<open>
  The limit can be changed again while a cycle is under way, so that timers and joins
  of several cycles are pending together. What each callback does to the state does not
  depend on that: the facts below hold in every world in which the event can happen.
\<close>

lemma remove_join:
  "remove_first (awaited t (JoinSettles first userOut tracksOut)) ps = remove1 Join ps"
proof (induction ps)
  case Nil
  then show ?case by simp
next
  case (Cons p ps)
  then show ?case by (cases p) auto
qed

lemma awaited_join: "list_ex (awaited t (JoinSettles first userOut tracksOut)) ps = (Join \<in> set ps)"
  by (induction ps) (auto elim!: awaited.elims)

lemma awaited_timer:
  "list_ex (awaited t (TimerFires cb)) ps = (\<exists>due \<le> t. Timer due cb \<in> set ps)"
proof (induction ps)
  case Nil
  then show ?case by simp
next
  case (Cons p ps)
  then show ?case by (cases p) auto
qed


lemma fulfilled_join_step:
  assumes "promiseAll first (userInfoThen userOut) (topTracksThen tracksOut) = Inr (u, trs)"
    and "Join \<in> set (pending w)" and "now w \<le> t"
  shows "step frontend t (JoinSettles first userOut tracksOut) w =
     Some (w\<lparr>ui := (ui w)\<lparr>displayName := or_User (display_name u)\<rparr>, mounted := True, now := t,
            pending := remove1 Join (pending w) @ [Timer (t + 100) (FadeIn trs)],
            trace := trace w @
              [(t, SetDisplayName (or_User (display_name u))),
               (t, SetTimeout (FadeIn trs) 100)]\<rparr>)"
  using assms
  by (simp add: step_def frontend_def perform_def allSettled_def awaited_join remove_join)

lemma fade_out_step:
  "step frontend t (TimerFires (FadeOut l)) w =
     (if now w \<le> t \<and> (\<exists>due \<le> t. Timer due (FadeOut l) \<in> set (pending w)) then
        Some (w\<lparr>mounted := True, now := t,
               pending := remove_first (awaited t (TimerFires (FadeOut l))) (pending w) @ [Join],
               issued := issued w @ [userInfoRequest, topTracksRequest_frontend l],
               trace := trace w @ [(t, PromiseAll userInfoRequest (topTracksRequest_frontend l))]\<rparr>)
      else None)"
  by (simp add: step_def frontend_def perform_def awaited_timer)

lemma fade_in_step:
  "step frontend t (TimerFires (FadeIn trs)) w =
     (if now w \<le> t \<and> (\<exists>due \<le> t. Timer due (FadeIn trs) \<in> set (pending w)) then
        Some (w\<lparr>ui := (ui w)\<lparr>tracks := trs, isReloading := False\<rparr>, mounted := True, now := t,
               pending := remove_first (awaited t (TimerFires (FadeIn trs))) (pending w),
               trace := trace w @ [(t, SetTracks trs), (t, SetIsReloading False)]\<rparr>)
      else None)"
  by (simp add: step_def frontend_def perform_def awaited_timer)

text \<open>The event that starts a cycle, in any world.\<close>

lemma entry_step_any:
  assumes "starts_cycle ev w n"
  shows "step frontend t0 ev w =
     (if now w \<le> t0 then
        Some (w\<lparr>ui := (ui w)\<lparr>limit := n, isReloading := True\<rparr>, mounted := True, now := t0,
               pending := pending w @ [Timer (t0 + 300) (FadeOut n)],
               trace := trace w @ map (Pair t0)
                 ((case ev of Change v \<Rightarrow> [SetLimit n] | _ \<Rightarrow> []) @
                  [SetIsReloading True, SetTimeout (FadeOut n) 300])\<rparr>)
      else None)"
  using assms
  by (cases ev)
     (auto simp: starts_cycle_def step_def frontend_def perform_def handleLimitChange_def
        limitEffect_def fetchWrapData_def)

text \<open>
  C5. Every fade cycle whose two requests succeed (a 2xx status and a body that parses,
  each) takes these steps, in this order, whatever else is pending. The starting event, at
  \<open>t0\<close>, calls \<open>setIsReloading(true)\<close> and sets the 300ms timer. That timer fires no earlier
  than 300ms later, and its callback sends the user-info and the top-tracks request in one
  \<open>Promise.all\<close>. When both have succeeded, at \<open>t2\<close>, the callback calls \<open>setDisplayName\<close>
  with the returned \<open>display_name\<close>, or with \<open>User\<close> when it is absent or empty, and sets the
  100ms timer. That timer fires no earlier than 100ms later, and its callback calls
  \<open>setTracks\<close> with the new list and \<open>setIsReloading(false)\<close>. A cycle that starts with
  nothing else pending is the run of these four events, and with other timings the events
  cannot happen. And \<open>setDisplayName\<close> is called on no other event than a \<open>Promise.all\<close>
  whose two requests succeeded.
\<close>

theorem fade_cycle_steps:
  assumes "userOut = Responded r1" and "200 \<le> status r1" and "status r1 \<le> 299"
    and "json r1 = Inr u"
    and "tracksOut = Responded r2" and "200 \<le> status r2" and "status r2 \<le> 299"
    and "json r2 = Inr trs"
  shows
    "(starts_cycle ev w n \<longrightarrow>
        step frontend t0 ev w =
          (if now w \<le> t0 then
             Some (w\<lparr>ui := (ui w)\<lparr>limit := n, isReloading := True\<rparr>, mounted := True, now := t0,
                    pending := pending w @ [Timer (t0 + 300) (FadeOut n)],
                    trace := trace w @ map (Pair t0)
                      ((case ev of Change v \<Rightarrow> [SetLimit n] | _ \<Rightarrow> []) @
                       [SetIsReloading True, SetTimeout (FadeOut n) 300])\<rparr>)
           else None)) \<and>
     step frontend t1 (TimerFires (FadeOut n)) w =
       (if now w \<le> t1 \<and> (\<exists>due \<le> t1. Timer due (FadeOut n) \<in> set (pending w)) then
          Some (w\<lparr>mounted := True, now := t1,
                 pending := remove_first (awaited t1 (TimerFires (FadeOut n))) (pending w) @ [Join],
                 issued := issued w @ [userInfoRequest, topTracksRequest_frontend n],
                 trace := trace w @
                   [(t1, PromiseAll userInfoRequest (topTracksRequest_frontend n))]\<rparr>)
        else None) \<and>
     (Join \<in> set (pending w) \<and> now w \<le> t2 \<longrightarrow>
        step frontend t2 (JoinSettles first userOut tracksOut) w =
          Some (w\<lparr>ui := (ui w)
                   \<lparr>displayName :=
                      (case display_name u of
                         None \<Rightarrow> ''User''
                       | Some s \<Rightarrow> if s = [] then ''User'' else s)\<rparr>,
                 mounted := True, now := t2,
                 pending := remove1 Join (pending w) @ [Timer (t2 + 100) (FadeIn trs)],
                 trace := trace w @
                   [(t2, SetDisplayName
                           (case display_name u of
                              None \<Rightarrow> ''User''
                            | Some s \<Rightarrow> if s = [] then ''User'' else s)),
                    (t2, SetTimeout (FadeIn trs) 100)]\<rparr>)) \<and>
     step frontend t3 (TimerFires (FadeIn trs)) w =
       (if now w \<le> t3 \<and> (\<exists>due \<le> t3. Timer due (FadeIn trs) \<in> set (pending w)) then
          Some (w\<lparr>ui := (ui w)\<lparr>tracks := trs, isReloading := False\<rparr>, mounted := True, now := t3,
                 pending := remove_first (awaited t3 (TimerFires (FadeIn trs))) (pending w),
                 trace := trace w @ [(t3, SetTracks trs), (t3, SetIsReloading False)]\<rparr>)
        else None) \<and>
     (starts_cycle ev w n \<and> pending w = [] \<and> now w \<le> t0 \<longrightarrow>
        run frontend [(t0, ev), (t1, TimerFires (FadeOut n)),
            (t2, JoinSettles first userOut tracksOut), (t3, TimerFires (FadeIn trs))] w =
          (if t0 + 300 \<le> t1 \<and> t1 \<le> t2 \<and> t2 + 100 \<le> t3 then
             Some (w\<lparr>ui := (ui w)
                      \<lparr>limit := n,
                       displayName :=
                         (case display_name u of
                            None \<Rightarrow> ''User''
                          | Some s \<Rightarrow> if s = [] then ''User'' else s),
                       tracks := trs, isReloading := False\<rparr>,
                    mounted := True, now := t3,
                    issued := issued w @ [userInfoRequest, topTracksRequest_frontend n],
                    trace := trace w @ map (Pair t0)
                      ((case ev of Change v \<Rightarrow> [SetLimit n] | _ \<Rightarrow> []) @
                       [SetIsReloading True, SetTimeout (FadeOut n) 300]) @
                      [(t1, PromiseAll userInfoRequest (topTracksRequest_frontend n)),
                       (t2, SetDisplayName
                              (case display_name u of
                                 None \<Rightarrow> ''User''
                               | Some s \<Rightarrow> if s = [] then ''User'' else s)),
                       (t2, SetTimeout (FadeIn trs) 100),
                       (t3, SetTracks trs), (t3, SetIsReloading False)]\<rparr>)
           else None)) \<and>
     (\<forall>ev' st d.
        (SetDisplayName d \<in> set (handler_frontend ev' st)) =
        (\<exists>first' r1' r2' u' trs'.
           ev' = JoinSettles first' (Responded r1') (Responded r2') \<and>
           200 \<le> status r1' \<and> status r1' \<le> 299 \<and> json r1' = Inr u' \<and>
           200 \<le> status r2' \<and> status r2' \<le> 299 \<and> json r2' = Inr trs' \<and>
           d = (case display_name u' of
                  None \<Rightarrow> ''User''
                | Some s \<Rightarrow> if s = [] then ''User'' else s)))"
proof (intro conjI impI allI)
  have pa: "promiseAll first (userInfoThen userOut) (topTracksThen tracksOut) = Inr (u, trs)"
    using assms by (simp add: both_succeed)
  have name: "or_User (display_name u) =
      (case display_name u of None \<Rightarrow> ''User'' | Some s \<Rightarrow> if s = [] then ''User'' else s)"
    by (cases "display_name u") simp_all
  {
    assume "starts_cycle ev w n"
    then show "step frontend t0 ev w =
          (if now w \<le> t0 then
             Some (w\<lparr>ui := (ui w)\<lparr>limit := n, isReloading := True\<rparr>, mounted := True, now := t0,
                    pending := pending w @ [Timer (t0 + 300) (FadeOut n)],
                    trace := trace w @ map (Pair t0)
                      ((case ev of Change v \<Rightarrow> [SetLimit n] | _ \<Rightarrow> []) @
                       [SetIsReloading True, SetTimeout (FadeOut n) 300])\<rparr>)
           else None)"
      by (rule entry_step_any)
  }
  show "step frontend t1 (TimerFires (FadeOut n)) w =
       (if now w \<le> t1 \<and> (\<exists>due \<le> t1. Timer due (FadeOut n) \<in> set (pending w)) then
          Some (w\<lparr>mounted := True, now := t1,
                 pending := remove_first (awaited t1 (TimerFires (FadeOut n))) (pending w) @ [Join],
                 issued := issued w @ [userInfoRequest, topTracksRequest_frontend n],
                 trace := trace w @
                   [(t1, PromiseAll userInfoRequest (topTracksRequest_frontend n))]\<rparr>)
        else None)"
    by (rule fade_out_step)
  {
    assume "Join \<in> set (pending w) \<and> now w \<le> t2"
    then have "Join \<in> set (pending w)" and "now w \<le> t2"
      by simp_all
    from fulfilled_join_step [OF pa this]
    show "step frontend t2 (JoinSettles first userOut tracksOut) w =
          Some (w\<lparr>ui := (ui w)
                   \<lparr>displayName :=
                      (case display_name u of
                         None \<Rightarrow> ''User''
                       | Some s \<Rightarrow> if s = [] then ''User'' else s)\<rparr>,
                 mounted := True, now := t2,
                 pending := remove1 Join (pending w) @ [Timer (t2 + 100) (FadeIn trs)],
                 trace := trace w @
                   [(t2, SetDisplayName
                           (case display_name u of
                              None \<Rightarrow> ''User''
                            | Some s \<Rightarrow> if s = [] then ''User'' else s)),
                    (t2, SetTimeout (FadeIn trs) 100)]\<rparr>)"
      unfolding name .
  }
  show "step frontend t3 (TimerFires (FadeIn trs)) w =
       (if now w \<le> t3 \<and> (\<exists>due \<le> t3. Timer due (FadeIn trs) \<in> set (pending w)) then
          Some (w\<lparr>ui := (ui w)\<lparr>tracks := trs, isReloading := False\<rparr>, mounted := True, now := t3,
                 pending := remove_first (awaited t3 (TimerFires (FadeIn trs))) (pending w),
                 trace := trace w @ [(t3, SetTracks trs), (t3, SetIsReloading False)]\<rparr>)
        else None)"
    by (rule fade_in_step)
  {
    assume "starts_cycle ev w n \<and> pending w = [] \<and> now w \<le> t0"
    then have "starts_cycle ev w n" and "pending w = []" and "now w \<le> t0"
      by simp_all
    from fulfilled_cycle [OF this pa, of t1 t2 t3]
    show "run frontend [(t0, ev), (t1, TimerFires (FadeOut n)),
            (t2, JoinSettles first userOut tracksOut), (t3, TimerFires (FadeIn trs))] w =
          (if t0 + 300 \<le> t1 \<and> t1 \<le> t2 \<and> t2 + 100 \<le> t3 then
             Some (w\<lparr>ui := (ui w)
                      \<lparr>limit := n,
                       displayName :=
                         (case display_name u of
                            None \<Rightarrow> ''User''
                          | Some s \<Rightarrow> if s = [] then ''User'' else s),
                       tracks := trs, isReloading := False\<rparr>,
                    mounted := True, now := t3,
                    issued := issued w @ [userInfoRequest, topTracksRequest_frontend n],
                    trace := trace w @ map (Pair t0)
                      ((case ev of Change v \<Rightarrow> [SetLimit n] | _ \<Rightarrow> []) @
                       [SetIsReloading True, SetTimeout (FadeOut n) 300]) @
                      [(t1, PromiseAll userInfoRequest (topTracksRequest_frontend n)),
                       (t2, SetDisplayName
                              (case display_name u of
                                 None \<Rightarrow> ''User''
                               | Some s \<Rightarrow> if s = [] then ''User'' else s)),
                       (t2, SetTimeout (FadeIn trs) 100),
                       (t3, SetTracks trs), (t3, SetIsReloading False)]\<rparr>)
           else None)"
      unfolding name .
  }
  fix ev' st d
  show "(SetDisplayName d \<in> set (handler_frontend ev' st)) =
        (\<exists>first' r1' r2' u' trs'.
           ev' = JoinSettles first' (Responded r1') (Responded r2') \<and>
           200 \<le> status r1' \<and> status r1' \<le> 299 \<and> json r1' = Inr u' \<and>
           200 \<le> status r2' \<and> status r2' \<le> 299 \<and> json r2' = Inr trs' \<and>
           d = (case display_name u' of
                  None \<Rightarrow> ''User''
                | Some s \<Rightarrow> if s = [] then ''User'' else s))"
    by (rule display_name_only_on_success)
qed

theorem fade_cycle_steps_witness:
  "run frontend
     [(0, Mount), (300, TimerFires (FadeOut (Num 5))),
      (420, JoinSettles True
         (Responded \<lparr>status = 200, json = Inr \<lparr>display_name = Some ''Ann''\<rparr>\<rparr>)
         (Responded \<lparr>status = 200,
            json = Inr [\<lparr>name = ''Song'', artists = [''A'', ''B''], album_image = ''a.png''\<rparr>]\<rparr>)),
      (520, TimerFires
         (FadeIn [\<lparr>name = ''Song'', artists = [''A'', ''B''], album_image = ''a.png''\<rparr>]))]
     (initial_world initial_wrap_state) =
   Some \<lparr>ui = \<lparr>displayName = ''Ann'',
               tracks = [\<lparr>name = ''Song'', artists = [''A'', ''B''], album_image = ''a.png''\<rparr>],
               limit = Num 5, error = None, isReloading = False\<rparr>,
         mounted = True, now = 520, pending = [],
         issued =
           [\<lparr>url = ''https://monthlywrap.onrender.com/user-info'', http_method = ''GET'',
              credentials = ''include''\<rparr>,
            \<lparr>url = ''https://monthlywrap.onrender.com//top-tracks?limit=5'', http_method = ''GET'',
              credentials = ''include''\<rparr>],
         trace =
           [(0, SetIsReloading True), (0, SetTimeout (FadeOut (Num 5)) 300),
            (300, PromiseAll userInfoRequest (topTracksRequest_frontend (Num 5))),
            (420, SetDisplayName ''Ann''),
            (420, SetTimeout
               (FadeIn [\<lparr>name = ''Song'', artists = [''A'', ''B''], album_image = ''a.png''\<rparr>]) 100),
            (520, SetTracks [\<lparr>name = ''Song'', artists = [''A'', ''B''], album_image = ''a.png''\<rparr>]),
            (520, SetIsReloading False)]\<rparr> \<and>
   step frontend 420
     (JoinSettles True
         (Responded \<lparr>status = 200, json = Inr \<lparr>display_name = Some ''Ann''\<rparr>\<rparr>)
         (Responded \<lparr>status = 200,
            json = Inr [\<lparr>name = ''Song'', artists = [''A'', ''B''], album_image = ''a.png''\<rparr>]\<rparr>))
     \<lparr>ui = \<lparr>displayName = [], tracks = [], limit = Num 5, error = None, isReloading = True\<rparr>,
      mounted = True, now = 400, pending = [Timer 450 (FadeIn []), Join, Timer 700 (FadeOut (Num 3))],
      issued = [], trace = []\<rparr> =
   Some \<lparr>ui = \<lparr>displayName = ''Ann'', tracks = [], limit = Num 5, error = None,
               isReloading = True\<rparr>,
         mounted = True, now = 420,
         pending =
           [Timer 450 (FadeIn []), Timer 700 (FadeOut (Num 3)),
            Timer 520
              (FadeIn [\<lparr>name = ''Song'', artists = [''A'', ''B''], album_image = ''a.png''\<rparr>])],
         issued = [],
         trace =
           [(420, SetDisplayName ''Ann''),
            (420, SetTimeout
               (FadeIn [\<lparr>name = ''Song'', artists = [''A'', ''B''], album_image = ''a.png''\<rparr>]) 100)]\<rparr>"
proof -
  let ?song = "\<lparr>name = ''Song'', artists = [''A'', ''B''], album_image = ''a.png''\<rparr>"
  let ?r1 = "\<lparr>status = 200, json = Inr \<lparr>display_name = Some ''Ann''\<rparr>\<rparr> :: user_profile response"
  let ?r2 = "\<lparr>status = 200, json = Inr [?song]\<rparr> :: track list response"
  let ?w = "\<lparr>ui = \<lparr>displayName = [], tracks = [], limit = Num 5, error = None, isReloading = True\<rparr>,
      mounted = True, now = 400, pending = [Timer 450 (FadeIn []), Join, Timer 700 (FadeOut (Num 3))],
      issued = [], trace = []\<rparr> :: wrap_state world"
  have start: "starts_cycle Mount (initial_world initial_wrap_state) (Num 5) \<and>
      pending (initial_world initial_wrap_state) = [] \<and>
      now (initial_world initial_wrap_state) \<le> 0"
    by (simp add: starts_cycle_def initial_world_def initial_wrap_state_def)
  have "starts_cycle Mount (initial_world initial_wrap_state) (Num 5) \<and>
      pending (initial_world initial_wrap_state) = [] \<and>
      now (initial_world initial_wrap_state) \<le> 0 \<longrightarrow>
     run frontend
       [(0, Mount), (300, TimerFires (FadeOut (Num 5))),
        (420, JoinSettles True (Responded ?r1) (Responded ?r2)),
        (520, TimerFires (FadeIn [?song]))]
       (initial_world initial_wrap_state) =
     (if (0::nat) + 300 \<le> 300 \<and> (300::nat) \<le> 420 \<and> (420::nat) + 100 \<le> 520 then
        Some ((initial_world initial_wrap_state)
              \<lparr>ui := (ui (initial_world initial_wrap_state))
                 \<lparr>limit := Num 5,
                  displayName :=
                    (case display_name \<lparr>display_name = Some ''Ann''\<rparr> of
                       None \<Rightarrow> ''User''
                     | Some s \<Rightarrow> if s = [] then ''User'' else s),
                  tracks := [?song], isReloading := False\<rparr>,
               mounted := True, now := 520,
               issued := issued (initial_world initial_wrap_state) @
                 [userInfoRequest, topTracksRequest_frontend (Num 5)],
               trace := trace (initial_world initial_wrap_state) @ map (Pair 0)
                 ((case Mount of Change v \<Rightarrow> [SetLimit (Num 5)] | _ \<Rightarrow> []) @
                  [SetIsReloading True, SetTimeout (FadeOut (Num 5)) 300]) @
                 [(300, PromiseAll userInfoRequest (topTracksRequest_frontend (Num 5))),
                  (420, SetDisplayName
                         (case display_name \<lparr>display_name = Some ''Ann''\<rparr> of
                            None \<Rightarrow> ''User''
                          | Some s \<Rightarrow> if s = [] then ''User'' else s)),
                  (420, SetTimeout (FadeIn [?song]) 100),
                  (520, SetTracks [?song]),
                  (520, SetIsReloading False)]\<rparr>)
      else None)"
    by (rule conjunct1 [OF conjunct2 [OF conjunct2 [OF conjunct2 [OF conjunct2
          [OF fade_cycle_steps [where ?r1.0 = ?r1 and ?r2.0 = ?r2 and ev = Mount
             and w = "initial_world initial_wrap_state" and n = "Num 5"]]]]]])
       simp_all
  with start have 1: "run frontend
       [(0, Mount), (300, TimerFires (FadeOut (Num 5))),
        (420, JoinSettles True (Responded ?r1) (Responded ?r2)),
        (520, TimerFires (FadeIn [?song]))]
       (initial_world initial_wrap_state) =
     Some \<lparr>ui = \<lparr>displayName = ''Ann'', tracks = [?song],
               limit = Num 5, error = None, isReloading = False\<rparr>,
         mounted = True, now = 520, pending = [],
         issued =
           [\<lparr>url = ''https://monthlywrap.onrender.com/user-info'', http_method = ''GET'',
              credentials = ''include''\<rparr>,
            \<lparr>url = ''https://monthlywrap.onrender.com//top-tracks?limit=5'', http_method = ''GET'',
              credentials = ''include''\<rparr>],
         trace =
           [(0, SetIsReloading True), (0, SetTimeout (FadeOut (Num 5)) 300),
            (300, PromiseAll userInfoRequest (topTracksRequest_frontend (Num 5))),
            (420, SetDisplayName ''Ann''),
            (420, SetTimeout (FadeIn [?song]) 100),
            (520, SetTracks [?song]),
            (520, SetIsReloading False)]\<rparr>"
    by (simp add: initial_world_def initial_wrap_state_def userInfoRequest_def
        topTracksRequest_frontend_def backend_def int_to_string_5)
  have "Join \<in> set (pending ?w) \<and> now ?w \<le> 420 \<longrightarrow>
      step frontend 420 (JoinSettles True (Responded ?r1) (Responded ?r2)) ?w =
          Some (?w\<lparr>ui := (ui ?w)
                   \<lparr>displayName :=
                      (case display_name \<lparr>display_name = Some ''Ann''\<rparr> of
                         None \<Rightarrow> ''User''
                       | Some s \<Rightarrow> if s = [] then ''User'' else s)\<rparr>,
                 mounted := True, now := 420,
                 pending := remove1 Join (pending ?w) @ [Timer (420 + 100) (FadeIn [?song])],
                 trace := trace ?w @
                   [(420, SetDisplayName
                           (case display_name \<lparr>display_name = Some ''Ann''\<rparr> of
                              None \<Rightarrow> ''User''
                            | Some s \<Rightarrow> if s = [] then ''User'' else s)),
                    (420, SetTimeout (FadeIn [?song]) 100)]\<rparr>)"
    by (rule conjunct1 [OF conjunct2 [OF conjunct2
          [OF fade_cycle_steps [where ?r1.0 = ?r1 and ?r2.0 = ?r2 and w = ?w]]]])
       simp_all
  then have 2: "step frontend 420 (JoinSettles True (Responded ?r1) (Responded ?r2)) ?w =
   Some \<lparr>ui = \<lparr>displayName = ''Ann'', tracks = [], limit = Num 5, error = None,
               isReloading = True\<rparr>,
         mounted = True, now = 420,
         pending =
           [Timer 450 (FadeIn []), Timer 700 (FadeOut (Num 3)), Timer 520 (FadeIn [?song])],
         issued = [],
         trace =
           [(420, SetDisplayName ''Ann''),
            (420, SetTimeout (FadeIn [?song]) 100)]\<rparr>"
    by simp
  from 1 2 show ?thesis by (rule conjI)
qed


section \<open>A cycle that fails\<close>








section \<open>isReloading over a cycle\<close>

lemma reloading_calls_append [simp]:
  "reloading_calls (xs @ ys) = reloading_calls xs @ reloading_calls ys"
  by (simp add: reloading_calls_def)

lemma reloading_calls_entry [simp]:
  "reloading_calls (map (Pair t) (case ev of Change v \<Rightarrow> [SetLimit n] | _ \<Rightarrow> [])) = []"
  by (cases ev) (simp_all add: reloading_calls_def)

lemma falling_edges_entry [simp]:
  "falling_edges b (map (Pair t) (case ev of Change v \<Rightarrow> [SetLimit n] | _ \<Rightarrow> []) @ tr) =
   falling_edges b tr"
  by (cases ev) simp_all








section \<open>The error state\<close>

text \<open>No handler of either version calls \<open>setError(null)\<close>.\<close>

lemma handlers_never_clear_error:
  "SetError None \<notin> set (handler_frontend ev st) \<and> SetError None \<notin> set (handler_routed ev st')"
proof (cases ev)
  case (TimerFires cb)
  then show ?thesis by (cases cb) simp_all
next
  case (JoinSettles first userOut tracksOut)
  then show ?thesis
    by (cases first "userInfoThen userOut" "topTracksThen tracksOut" rule: allSettled_cases)
       (auto simp: allSettled_def onRejected_def)
next
  case (ProbeSettles out)
  then show ?thesis by (cases "probeThen out") (simp_all add: probeSettled_def)
next
  case (CallbackSettles out)
  then show ?thesis by (cases out rule: callbackSettled_cases) simp_all
next
  case Mount
  then show ?thesis
    by (cases "search st'" rule: CallbackHandler_cases)
       (simp_all add: fetchWrapData_def sessionProbe_def)
qed (auto simp: handleLimitChange_def limitEffect_def fetchWrapData_def)

lemma frontend_step_frame:
  assumes "step frontend t ev w = Some w'"
  shows "(error (ui w) \<noteq> None \<longrightarrow> error (ui w') \<noteq> None) \<and>
         (fulfils (t, ev) \<longrightarrow> error (ui w') = error (ui w)) \<and>
         (no_change (t, ev) \<longrightarrow> limit (ui w') = limit (ui w))"
proof (cases ev)
  case (TimerFires cb)
  with assms show ?thesis
    by (cases cb) (auto simp: step_def frontend_def perform_def split: if_splits)
next
  case (JoinSettles first userOut tracksOut)
  with assms show ?thesis
    by (cases first "userInfoThen userOut" "topTracksThen tracksOut" rule: allSettled_cases)
       (auto simp: step_def frontend_def perform_def allSettled_def onRejected_def fulfils_def
          split: if_splits)
qed (use assms in \<open>auto simp: step_def frontend_def perform_def fetchWrapData_def
       handleLimitChange_def limitEffect_def no_change_def split: if_splits\<close>)

lemma frontend_run_frame:
  assumes "run frontend es w = Some w'"
  shows "(error (ui w) \<noteq> None \<longrightarrow> error (ui w') \<noteq> None) \<and>
         (list_all fulfils es \<longrightarrow> error (ui w') = error (ui w)) \<and>
         (list_all no_change es \<longrightarrow> limit (ui w') = limit (ui w))"
  using assms
proof (induction es arbitrary: w)
  case Nil
  then show ?case by simp
next
  case (Cons a es)
  obtain t ev where a: "a = (t, ev)" by (cases a)
  from Cons.prems obtain w1 where s: "step frontend t ev w = Some w1"
    and r: "run frontend es w1 = Some w'"
    by (auto simp: a split: option.splits)
  from frontend_step_frame [OF s] Cons.IH [OF r] show ?case by (auto simp: a)
qed

lemma error_line_shown:
  "error st = Some e \<Longrightarrow>
   Element ''p'' [] [Text ''Error: '', Text (message e)] \<in> set (children (App_frontend st))"
  by (simp add: App_frontend_def wrap_view_def error_view_def)

text \<open>
  C9. Over any run of the frontend version, from any world: an error that is set stays
  set; if no \<open>Promise.all\<close> of the run rejects, \<open>error\<close> is at the end what it was at the
  start, and the page still shows its message; if moreover the dropdown is not
  changed, the state differs from the start in \<open>displayName\<close>, \<open>tracks\<close> and \<open>isReloading\<close>
  at most. No handler of either file calls \<open>setError(null)\<close>.
\<close>

theorem error_never_cleared:
  assumes "run frontend es w = Some w'"
  shows "(error (ui w) \<noteq> None \<longrightarrow> error (ui w') \<noteq> None) \<and>
         (list_all fulfils es \<longrightarrow>
            error (ui w') = error (ui w) \<and>
            (\<forall>e. error (ui w) = Some e \<longrightarrow>
               Element ''p'' [] [Text ''Error: '', Text (message e)]
                 \<in> set (children (App_frontend (ui w'))))) \<and>
         (list_all fulfils es \<and> list_all no_change es \<longrightarrow>
            ui w' = (ui w)\<lparr>displayName := displayName (ui w'), tracks := tracks (ui w'),
                           isReloading := isReloading (ui w')\<rparr>) \<and>
         (\<forall>ev st. SetError None \<notin> set (handler_frontend ev st)) \<and>
         (\<forall>ev st. SetError None \<notin> set (handler_routed ev st))"
  using frontend_run_frame [OF assms] handlers_never_clear_error
  by (auto simp: error_line_shown)

theorem error_never_cleared_witness:
  "run frontend
     [(2000, Change ''3''), (2300, TimerFires (FadeOut (Num 3))),
      (2400, JoinSettles False
         (Responded \<lparr>status = 200, json = Inr \<lparr>display_name = Some ''Ann''\<rparr>\<rparr>)
         (Responded \<lparr>status = 200, json = Inr []\<rparr>)),
      (2500, TimerFires (FadeIn []))]
     \<lparr>ui = \<lparr>displayName = [], tracks = [], limit = Num 5,
             error = Some (Error ''Top tracks HTTP error: 500''), isReloading = False\<rparr>,
       mounted = True, now = 1400, pending = [], issued = [], trace = []\<rparr> =
   Some \<lparr>ui = \<lparr>displayName = ''Ann'', tracks = [], limit = Num 3,
               error = Some (Error ''Top tracks HTTP error: 500''), isReloading = False\<rparr>,
         mounted = True, now = 2500, pending = [],
         issued = [userInfoRequest, topTracksRequest_frontend (Num 3)],
         trace =
           [(2000, SetLimit (Num 3)), (2000, SetIsReloading True),
            (2000, SetTimeout (FadeOut (Num 3)) 300),
            (2300, PromiseAll userInfoRequest (topTracksRequest_frontend (Num 3))),
            (2400, SetDisplayName ''Ann''), (2400, SetTimeout (FadeIn []) 100),
            (2500, SetTracks []), (2500, SetIsReloading False)]\<rparr> \<and>
   list_all fulfils
     [(2000, Change ''3''), (2300, TimerFires (FadeOut (Num 3))),
      (2400, JoinSettles False
         (Responded \<lparr>status = 200, json = Inr \<lparr>display_name = Some ''Ann''\<rparr>\<rparr>)
         (Responded \<lparr>status = 200, json = Inr []\<rparr>)),
      (2500, TimerFires (FadeIn []))] \<and>
   Element ''p'' [] [Text ''Error: '', Text ''Top tracks HTTP error: 500'']
     \<in> set (children (App_frontend
          \<lparr>displayName = ''Ann'', tracks = [], limit = Num 3,
           error = Some (Error ''Top tracks HTTP error: 500''), isReloading = False\<rparr>))"
  using error_never_cleared [where es = "[(2000, Change ''3''), (2300, TimerFires (FadeOut (Num 3))),
      (2400, JoinSettles False
         (Responded \<lparr>status = 200, json = Inr \<lparr>display_name = Some ''Ann''\<rparr>\<rparr>)
         (Responded \<lparr>status = 200, json = Inr []\<rparr>)),
      (2500, TimerFires (FadeIn []))]"
    and w = "\<lparr>ui = \<lparr>displayName = [], tracks = [], limit = Num 5,
             error = Some (Error ''Top tracks HTTP error: 500''), isReloading = False\<rparr>,
       mounted = True, now = 1400, pending = [], issued = [], trace = []\<rparr>"
    and w' = "\<lparr>ui = \<lparr>displayName = ''Ann'', tracks = [], limit = Num 3,
               error = Some (Error ''Top tracks HTTP error: 500''), isReloading = False\<rparr>,
         mounted = True, now = 2500, pending = [],
         issued = [userInfoRequest, topTracksRequest_frontend (Num 3)],
         trace =
           [(2000, SetLimit (Num 3)), (2000, SetIsReloading True),
            (2000, SetTimeout (FadeOut (Num 3)) 300),
            (2300, PromiseAll userInfoRequest (topTracksRequest_frontend (Num 3))),
            (2400, SetDisplayName ''Ann''), (2400, SetTimeout (FadeIn []) 100),
            (2500, SetTracks []), (2500, SetIsReloading False)]\<rparr>"]
  by (simp add: step_def frontend_def perform_def handleLimitChange_def limitEffect_def
      fetchWrapData_def allSettled_def promiseAll_def userInfoThen_def topTracksThen_def
      ok_def option_values_eq parseInt10_3 fulfils_def)


section \<open>The session probe\<close>








section \<open>CallbackHandler\<close>

text \<open>
  C10, as claimed: the request is sent if and only if the URL has a \<open>code\<close> parameter.
  It is not so: on \<open>/callback?code=\<close> the parameter is there, \<open>urlParams.get('code')\<close> is
  the empty string, \<open>if (code)\<close> is false, and the handler navigates home without a
  request.
\<close>

theorem callback_empty_code_counterexample:
  "map_of [(''code'', [])] ''code'' = Some [] \<and>
   CallbackHandler [(''code'', [])] = [Navigate ''/'']"
  by (simp add: CallbackHandler_def)

text \<open>
  C10, amended. The effect of \<open>CallbackHandler\<close> sends a request if and only if the first
  \<open>code\<close> parameter of the URL has a value that is not empty; the request is then its only
  call, a credentialed GET to \<open>/callback?code=\<close> followed by that value. Without a request
  the only call is \<open>navigate('/')\<close>. When the request settles, whatever it settles with,
  one line is logged and \<open>navigate('/')\<close> is the last call.
\<close>

theorem callback_handler_navigates:
  "(\<exists>req. Fetch req \<in> set (CallbackHandler urlParams)) =
     (\<exists>code. map_of urlParams ''code'' = Some code \<and> code \<noteq> []) \<and>
   (\<forall>code. map_of urlParams ''code'' = Some code \<and> code \<noteq> [] \<longrightarrow>
      CallbackHandler urlParams = [Fetch (callbackRequest code)] \<and>
      url (callbackRequest code) = backend @ ''/callback?code='' @ code \<and>
      http_method (callbackRequest code) = ''GET'' \<and>
      credentials (callbackRequest code) = ''include'') \<and>
   ((\<forall>req. Fetch req \<notin> set (CallbackHandler urlParams)) \<longrightarrow>
      CallbackHandler urlParams = [Navigate ''/'']) \<and>
   (callbackSettled out = [ConsoleLog ''Auth Success:'', Navigate ''/''] \<or>
    (\<exists>err. callbackSettled out = [ConsoleError ''Auth Error:'' err, Navigate ''/'']))"
proof -
  have settled: "callbackSettled out = [ConsoleLog ''Auth Success:'', Navigate ''/''] \<or>
    (\<exists>err. callbackSettled out = [ConsoleError ''Auth Error:'' err, Navigate ''/''])"
    by (auto simp: callbackSettled_def split: fetch_outcome.splits sum.splits)
  show ?thesis
  proof (cases "map_of urlParams ''code''")
    case None
    with settled show ?thesis by (simp add: CallbackHandler_def)
  next
    case (Some code)
    with settled show ?thesis by (simp add: CallbackHandler_def callbackRequest_def)
  qed
qed


theorem callback_handler_navigates_witness:
  "map_of [(''code'', ''abc''), (''state'', ''x'')] ''code'' = Some ''abc'' \<and>
   CallbackHandler [(''code'', ''abc''), (''state'', ''x'')] = [Fetch (callbackRequest ''abc'')] \<and>
   url (callbackRequest ''abc'') = backend @ ''/callback?code=abc'' \<and>
   http_method (callbackRequest ''abc'') = ''GET'' \<and>
   credentials (callbackRequest ''abc'') = ''include''"
proof -
  have code: "map_of [(''code'', ''abc''), (''state'', ''x'')] ''code'' = Some ''abc'' \<and> ''abc'' \<noteq> []"
    by simp
  from callback_handler_navigates [where urlParams = "[(''code'', ''abc''), (''state'', ''x'')]"
      and out = "Rejected (TypeError ''Failed to fetch'') :: unit fetch_outcome"]
  have "\<forall>code. map_of [(''code'', ''abc''), (''state'', ''x'')] ''code'' = Some code \<and> code \<noteq> [] \<longrightarrow>
      CallbackHandler [(''code'', ''abc''), (''state'', ''x'')] = [Fetch (callbackRequest code)] \<and>
      url (callbackRequest code) = backend @ ''/callback?code='' @ code \<and>
      http_method (callbackRequest code) = ''GET'' \<and>
      credentials (callbackRequest code) = ''include''"
    by (elim conjE)
  then have "CallbackHandler [(''code'', ''abc''), (''state'', ''x'')] = [Fetch (callbackRequest ''abc'')] \<and>
      url (callbackRequest ''abc'') = backend @ ''/callback?code='' @ ''abc'' \<and>
      http_method (callbackRequest ''abc'') = ''GET'' \<and>
      credentials (callbackRequest ''abc'') = ''include''"
    using code by blast
  with code show ?thesis by simp
qed

text \<open>
  The same in a run: opened on \<open>/callback?code=abc\<close>, the page sends the callback request
  and the probe on the mount, and is on the home route once the callback request has
  settled; opened on \<open>/callback\<close> without a code, it is on the home route after the mount.
\<close>

lemma callback_run:
  "run routed [(0, Mount), (60, CallbackSettles (Responded \<lparr>status = 200, json = Inr ()\<rparr>))]
     (initial_world (initial_page_state CallbackRoute [(''code'', ''abc'')])) =
   Some \<lparr>ui = initial_page_state HomeRoute [], mounted = True, now = 60, pending = [Probe],
         issued = [callbackRequest ''abc'', userInfoRequest],
         trace = [(0, Fetch (callbackRequest ''abc'')), (0, Fetch userInfoRequest),
                  (60, ConsoleLog ''Auth Success:''), (60, Navigate ''/'')]\<rparr>"
  by (simp add: step_def routed_def perform_def initial_world_def initial_page_state_def
      sessionProbe_def CallbackHandler_def callbackSettled_def callback_request_is_not_probe
      match_route_def routes_def)

lemma callback_run_without_code:
  "run routed [(0, Mount)] (initial_world (initial_page_state CallbackRoute [])) =
   Some \<lparr>ui = initial_page_state HomeRoute [], mounted = True, now = 0, pending = [Probe],
         issued = [userInfoRequest],
         trace = [(0, Navigate ''/''), (0, Fetch userInfoRequest)]\<rparr>"
  by (simp add: step_def routed_def perform_def initial_world_def initial_page_state_def
      sessionProbe_def CallbackHandler_def match_route_def routes_def)


section \<open>What the page shows\<close>

lemma has_class_Text [simp]: "has_class c (Text s) = False"
  by (simp add: has_class_def classes_def)

lemma has_class_Element:
  "has_class c (Element tg attrs cs) =
     (case map_of attrs ''className'' of
        None \<Rightarrow> False
      | Some cn \<Rightarrow> c \<in> set (words_from [] cn))"
  by (simp add: has_class_def classes_def split: option.splits)

lemma by_class_Text [simp]: "by_class c (Text s) = []"
  by (simp add: by_class_def)

lemma by_class_Element:
  "by_class c (Element tg attrs cs) =
     (if has_class c (Element tg attrs cs) then [Element tg attrs cs] else []) @
     concat (map (by_class c) cs)"
  by (simp add: by_class_def [abs_def] filter_concat comp_def)

lemma by_tag_Text [simp]: "by_tag tg (Text s) = []"
  by (simp add: by_tag_def)

lemma by_tag_Element:
  "by_tag tg (Element tg' attrs cs) =
     (if tg' = tg then [Element tg' attrs cs] else []) @ concat (map (by_tag tg) cs)"
  by (simp add: by_tag_def [abs_def] filter_concat comp_def)

lemma by_class_greeting [simp]: "by_class c (greeting dn) = []"
  by (simp add: greeting_def by_class_Element has_class_Element)

lemma by_class_option_node [simp]: "by_class c (option_node i) = []"
  by (simp add: option_node_def by_class_Element has_class_Element)

lemma by_class_error_view [simp]: "concat (map (by_class c) (error_view e)) = []"
  by (cases e) (simp_all add: error_view_def by_class_Element has_class_Element)

lemma has_class_card: "has_class c (card it) = (c = ''card'')"
  by (cases it) (simp add: card_def has_class_Element)

lemma by_class_card: "by_class c (card it) = (if c = ''card'' then [card it] else [])"
  by (cases it) (simp add: card_def by_class_Element has_class_Element)

lemma by_class_cards:
  "concat (map (by_class c \<circ> card) xs) = (if c = ''card'' then map card xs else [])"
  by (induction xs) (simp_all add: by_class_card)

lemma by_class_dropdown:
  "c \<notin> {''dropdown-container'', ''dropdown-label'', ''dropdown-select''} \<Longrightarrow>
   by_class c (dropdown l) = []"
  by (simp add: dropdown_def limit_select_def by_class_Element has_class_Element)

lemma by_class_card_container:
  "by_class ''card-container'' (card_container ts r) = [card_container ts r]"
  "by_class ''card'' (card_container ts r) = map card (enumerate 0 ts)"
  "by_class ''login-button'' (card_container ts r) = []"
  by (simp_all add: card_container_def no_tracks_def by_class_Element has_class_Element
      by_class_cards by_class_card)

lemma by_tag_select_parts [simp]:
  "by_tag ''select'' (greeting dn) = []"
  "concat (map (by_tag ''select'') (error_view e)) = []"
  "by_tag ''select'' (card it) = []"
  "by_tag ''select'' (option_node i) = []"
  "by_tag ''select'' login_container = []"
  by (cases e; cases it;
      simp add: greeting_def error_view_def card_def option_node_def login_container_def
        login_button_def by_tag_Element)+

lemma by_tag_select_dropdown: "by_tag ''select'' (dropdown l) = [limit_select l]"
  by (simp add: dropdown_def limit_select_def by_tag_Element)

lemma by_tag_select_card_container: "by_tag ''select'' (card_container ts r) = []"
  by (simp add: card_container_def no_tracks_def by_tag_Element)

lemma by_class_login_container:
  "by_class ''login-button'' login_container = [login_button]"
  "by_class ''card-container'' login_container = []"
  "by_class ''card'' login_container = []"
  by (simp_all add: login_container_def login_button_def by_class_Element has_class_Element)

text \<open>The card grid of the two pages and what it holds.\<close>

lemma grid_frontend:
  "by_class ''card-container'' (App_frontend st) = [card_container (tracks st) (isReloading st)]"
  by (simp add: App_frontend_def wrap_view_def by_class_Element has_class_Element
      by_class_dropdown by_class_card_container)

lemma grid_home:
  "by_class ''card-container'' (home st) =
     (if isLoggedIn st then [card_container (tracks st) (isReloading st)] else [])"
  by (simp add: home_def wrap_view_def by_class_Element has_class_Element by_class_dropdown
      by_class_card_container by_class_login_container)

lemma grid_children_frontend:
  "grid_children (App_frontend st) =
     (if tracks st = [] \<and> \<not> isReloading st then [no_tracks] else []) @
     map card (enumerate 0 (tracks st))"
  by (simp add: grid_children_def grid_frontend card_container_def)

lemma grid_children_home:
  "grid_children (home st) =
     (if isLoggedIn st
      then (if tracks st = [] \<and> \<not> isReloading st then [no_tracks] else []) @
           map card (enumerate 0 (tracks st))
      else [])"
  by (simp add: grid_children_def grid_home card_container_def)

lemma no_tracks_is_no_card: "no_tracks \<notin> set (map card xs)" "\<not> has_class ''card'' no_tracks"
  by (auto simp: no_tracks_def card_def has_class_Element split: prod.splits)

lemma filter_cards [simp]: "filter (has_class ''card'') (map card xs) = map card xs"
  by (induction xs) (simp_all add: has_class_card)

lemma nth_card:
  "i < length ts \<Longrightarrow>
   map card (enumerate 0 ts) ! i =
     Element ''div'' [(''key'', nat_to_string i), (''className'', ''card'')]
       [Element ''img'' [(''src'', album_image (ts ! i)), (''alt'', name (ts ! i))] [],
        Element ''h3'' [] [Text (name (ts ! i))],
        Element ''p'' [] [Text (join '', '' (artists (ts ! i)))]]"
  by (simp add: card_def nth_enumerate_eq)

text \<open>
  C3, as claimed: whenever \<open>isLoggedIn\<close> is false the page shows the login call-to-action.
  It is not so on the route \<open>/callback\<close>: opened on \<open>/callback?code=abc\<close>, logged out, \<open>App\<close>
  renders the element of that route, the line \<open>Logging in...\<close>, and no login link.
\<close>

theorem callback_route_counterexample:
  "\<not> isLoggedIn (initial_page_state CallbackRoute [(''code'', ''abc'')]) \<and>
   App_routed (initial_page_state CallbackRoute [(''code'', ''abc'')]) =
     [Element ''p'' [] [Text ''Logging in...'']] \<and>
   concat (map (by_class ''login-button'')
     (App_routed (initial_page_state CallbackRoute [(''code'', ''abc'')]))) = []"
  by (simp add: initial_page_state_def App_routed_def CallbackHandler_view_def by_class_Element
      has_class_Element)

text \<open>
  C3, amended. On the home route \<open>/\<close> of \<open>src/unnamed/part_000\<close>: while \<open>isLoggedIn\<close> is false
  the page is the container with the login block alone (the welcome heading, the line
  about the past 4 weeks and the link \<open>Login with Spotify\<close> to \<open>/login\<close>), and it holds no
  \<open>select\<close>, no card grid and no card; while \<open>isLoggedIn\<close> is true the container holds the
  heading \<open>Hello displayName, here is your Monthly Wrap!\<close>, the dropdown, the error line if
  any and the card grid, its one \<open>select\<close> has \<open>limit\<close> as its value, \<open>handleLimitChange\<close> as
  its change handler and the options 1 to 10, and there is no login link. On the route
  \<open>/callback\<close> the page is the line \<open>Logging in...\<close>, whatever \<open>isLoggedIn\<close> is.
\<close>

theorem home_page_by_login:
  "(route st = HomeRoute \<and> \<not> isLoggedIn st \<longrightarrow>
      App_routed st =
        [Element ''div'' [(''className'', ''container'')]
           [Element ''div'' [(''className'', ''login-container'')]
              [Element ''h1'' [] [Text ''Welcome to Monthly Wrap''],
               Element ''p'' [] [Text ''See your top Spotify tracks for the past 4 weeks.''],
               Element ''a''
                 [(''href'', ''https://monthlywrap.onrender.com/login''),
                  (''className'', ''login-button'')]
                 [Text ''Login with Spotify'']]]] \<and>
      concat (map (by_tag ''select'') (App_routed st)) = [] \<and>
      concat (map (by_class ''card-container'') (App_routed st)) = [] \<and>
      concat (map (by_class ''card'') (App_routed st)) = []) \<and>
   (route st = HomeRoute \<and> isLoggedIn st \<longrightarrow>
      App_routed st =
        [Element ''div'' [(''className'', ''container'')]
           ([Element ''h1'' []
               [Text ''Hello '', Text (displayName st), Text '', here is your Monthly Wrap!''],
             dropdown (limit st)] @
            error_view (error st) @ [card_container (tracks st) (isReloading st)])] \<and>
      concat (map (by_tag ''select'') (App_routed st)) =
        [Element ''select''
           [(''id'', ''limitSelect''), (''value'', String (limit st)),
            (''onChange'', ''handleLimitChange''), (''className'', ''dropdown-select'')]
           (map (\<lambda>i. Element ''option''
                        [(''key'', nat_to_string (i + 1)), (''value'', nat_to_string (i + 1))]
                        [Text (nat_to_string (i + 1))])
              [0..<10])] \<and>
      concat (map (by_class ''login-button'') (App_routed st)) = []) \<and>
   (route st = CallbackRoute \<longrightarrow> App_routed st = [Element ''p'' [] [Text ''Logging in...'']]) \<and>
   (route st = NoRoute \<longrightarrow> App_routed st = [])"
proof -
  have out: "App_routed st =
        [Element ''div'' [(''className'', ''container'')]
           [Element ''div'' [(''className'', ''login-container'')]
              [Element ''h1'' [] [Text ''Welcome to Monthly Wrap''],
               Element ''p'' [] [Text ''See your top Spotify tracks for the past 4 weeks.''],
               Element ''a''
                 [(''href'', ''https://monthlywrap.onrender.com/login''),
                  (''className'', ''login-button'')]
                 [Text ''Login with Spotify'']]]] \<and>
      concat (map (by_tag ''select'') (App_routed st)) = [] \<and>
      concat (map (by_class ''card-container'') (App_routed st)) = [] \<and>
      concat (map (by_class ''card'') (App_routed st)) = []"
    if "route st = HomeRoute" "\<not> isLoggedIn st"
    using that
    by (simp add: App_routed_def home_def login_container_def login_button_def backend_def
        by_class_Element by_tag_Element has_class_Element)
  have select: "limit_select l =
      Element ''select''
           [(''id'', ''limitSelect''), (''value'', String l),
            (''onChange'', ''handleLimitChange''), (''className'', ''dropdown-select'')]
           (map (\<lambda>i. Element ''option''
                        [(''key'', nat_to_string (i + 1)), (''value'', nat_to_string (i + 1))]
                        [Text (nat_to_string (i + 1))])
              [0..<10])" for l
    by (simp add: limit_select_def option_node_def [abs_def])
  have inside: "App_routed st =
        [Element ''div'' [(''className'', ''container'')]
           ([Element ''h1'' []
               [Text ''Hello '', Text (displayName st), Text '', here is your Monthly Wrap!''],
             dropdown (limit st)] @
            error_view (error st) @ [card_container (tracks st) (isReloading st)])] \<and>
      concat (map (by_tag ''select'') (App_routed st)) = [limit_select (limit st)] \<and>
      concat (map (by_class ''login-button'') (App_routed st)) = []"
    if "route st = HomeRoute" "isLoggedIn st"
    using that
    by (simp add: App_routed_def home_def wrap_view_def greeting_def by_class_Element
        by_tag_Element has_class_Element by_class_dropdown by_class_card_container
        by_tag_select_dropdown by_tag_select_card_container)
  have other: "route st = CallbackRoute \<longrightarrow> App_routed st = [Element ''p'' [] [Text ''Logging in...'']]"
    "route st = NoRoute \<longrightarrow> App_routed st = []"
    by (simp_all add: App_routed_def CallbackHandler_view_def)
  from out inside other show ?thesis unfolding select by blast
qed

theorem home_page_by_login_witness:
  "route (initial_page_state HomeRoute []) = HomeRoute \<and>
   \<not> isLoggedIn (initial_page_state HomeRoute []) \<and>
   App_routed (initial_page_state HomeRoute []) =
     [Element ''div'' [(''className'', ''container'')]
        [Element ''div'' [(''className'', ''login-container'')]
           [Element ''h1'' [] [Text ''Welcome to Monthly Wrap''],
            Element ''p'' [] [Text ''See your top Spotify tracks for the past 4 weeks.''],
            Element ''a''
              [(''href'', ''https://monthlywrap.onrender.com/login''),
               (''className'', ''login-button'')]
              [Text ''Login with Spotify'']]]] \<and>
   isLoggedIn ((initial_page_state HomeRoute [])\<lparr>displayName := ''Ann'', isLoggedIn := True\<rparr>) \<and>
   App_routed ((initial_page_state HomeRoute [])\<lparr>displayName := ''Ann'', isLoggedIn := True\<rparr>) =
     [Element ''div'' [(''className'', ''container'')]
        [Element ''h1'' [] [Text ''Hello '', Text ''Ann'', Text '', here is your Monthly Wrap!''],
         dropdown (Num 5),
         Element ''div'' [(''className'', ''card-container '')] [Element ''p'' [] [Text ''No tracks found.'']]]] \<and>
   map (attribute ''value'')
     (concat (map (by_tag ''select'')
        (App_routed ((initial_page_state HomeRoute [])\<lparr>displayName := ''Ann'', isLoggedIn := True\<rparr>)))) =
     [Some ''5''] \<and>
   map (attribute ''value'')
     (concat (map children (concat (map (by_tag ''select'')
        (App_routed ((initial_page_state HomeRoute [])\<lparr>displayName := ''Ann'', isLoggedIn := True\<rparr>)))))) =
     map (\<lambda>c. Some [c]) ''123456789'' @ [Some ''10'']"
proof -
  let ?out = "initial_page_state HomeRoute []"
  let ?in = "(initial_page_state HomeRoute [])\<lparr>displayName := ''Ann'', isLoggedIn := True\<rparr>"
  have a: "route ?out = HomeRoute \<and> \<not> isLoggedIn ?out"
    and b: "route ?in = HomeRoute \<and> isLoggedIn ?in"
    by (simp_all add: initial_page_state_def)
  have vals: "map (\<lambda>i. nat_to_string (i + 1)) [0..<10] = map (\<lambda>c. [c]) ''123456789'' @ [''10'']"
    using option_values_eq by (simp add: option_values_def)
  from a home_page_by_login [of ?out]
  have 1: "App_routed ?out =
     [Element ''div'' [(''className'', ''container'')]
        [Element ''div'' [(''className'', ''login-container'')]
           [Element ''h1'' [] [Text ''Welcome to Monthly Wrap''],
            Element ''p'' [] [Text ''See your top Spotify tracks for the past 4 weeks.''],
            Element ''a''
              [(''href'', ''https://monthlywrap.onrender.com/login''),
               (''className'', ''login-button'')]
              [Text ''Login with Spotify'']]]]"
    by blast
  from b home_page_by_login [of ?in]
  have 2: "App_routed ?in =
        [Element ''div'' [(''className'', ''container'')]
           ([Element ''h1'' []
               [Text ''Hello '', Text (displayName ?in), Text '', here is your Monthly Wrap!''],
             dropdown (limit ?in)] @
            error_view (error ?in) @ [card_container (tracks ?in) (isReloading ?in)])]"
    and 3: "concat (map (by_tag ''select'') (App_routed ?in)) =
        [Element ''select''
           [(''id'', ''limitSelect''), (''value'', String (limit ?in)),
            (''onChange'', ''handleLimitChange''), (''className'', ''dropdown-select'')]
           (map (\<lambda>i. Element ''option''
                        [(''key'', nat_to_string (i + 1)), (''value'', nat_to_string (i + 1))]
                        [Text (nat_to_string (i + 1))])
              [0..<10])]"
    by blast+
  have 5: "App_routed ?in =
     [Element ''div'' [(''className'', ''container'')]
        [Element ''h1'' [] [Text ''Hello '', Text ''Ann'', Text '', here is your Monthly Wrap!''],
         dropdown (Num 5),
         Element ''div'' [(''className'', ''card-container '')] [Element ''p'' [] [Text ''No tracks found.'']]]]"
    unfolding 2
    by (simp add: initial_page_state_def error_view_def card_container_def no_tracks_def)
  have 6: "map (attribute ''value'') (concat (map (by_tag ''select'') (App_routed ?in))) = [Some ''5'']"
    unfolding 3 by (simp add: initial_page_state_def int_to_string_5)
  have 7: "map (attribute ''value'')
     (concat (map children (concat (map (by_tag ''select'') (App_routed ?in))))) =
     map (\<lambda>c. Some [c]) ''123456789'' @ [Some ''10'']" (is "?l = ?r")
  proof -
    have "?l = map Some (map (\<lambda>i. nat_to_string (i + 1)) [0..<10])"
      unfolding 3 by (simp add: comp_def)
    also have "\<dots> = map Some (map (\<lambda>c. [c]) ''123456789'' @ [''10''])"
      by (simp only: vals)
    also have "\<dots> = ?r"
      by simp
    finally show ?thesis .
  qed
  from a b 1 5 6 7 show ?thesis by blast
qed

text \<open>
  C8, as claimed: whatever the state, the message \<open>No tracks found.\<close> is on the page
  exactly when \<open>tracks\<close> is empty and \<open>isReloading\<close> is false. It is not so in
  \<open>src/unnamed/part_000\<close>: in the initial state, logged out, the list is empty, nothing is
  reloading, and the page has no card grid and no message.
\<close>

theorem no_tracks_message_counterexample:
  "tracks initial_app_state = [] \<and> \<not> isReloading initial_app_state \<and>
   no_tracks \<notin> set (grid_children (home initial_app_state)) \<and>
   no_tracks \<notin> set (descendants (home initial_app_state))"
proof -
  have "no_tracks \<notin> set (grid_children (home initial_app_state))"
    by (simp add: grid_children_home initial_app_state_def)
  moreover have "no_tracks \<notin> set (descendants (home initial_app_state))"
    by (simp add: initial_app_state_def home_def login_container_def login_button_def
        no_tracks_def)
  ultimately show ?thesis by (simp add: initial_app_state_def)
qed

text \<open>
  C8, amended. Where the card grid is rendered (always in \<open>src/frontend/src/App.js\<close>, and
  while \<open>isLoggedIn\<close> is true in \<open>src/unnamed/part_000\<close>), its cards are one per track, in
  order; the card of the track at index \<open>i\<close> has the track's \<open>album_image\<close> as the image
  source, its \<open>name\<close> as the image's alternative text and as the title, and its \<open>artists\<close>
  joined with a comma and a space as the last line; and the message \<open>No tracks found.\<close> is
  in the grid exactly when \<open>tracks\<close> is empty and \<open>isReloading\<close> is false. While
  \<open>isLoggedIn\<close> is false the routed page has no card and no message.
\<close>

theorem card_grid_shows_tracks:
  "cards (App_frontend st) = map card (enumerate 0 (tracks st)) \<and>
   length (cards (App_frontend st)) = length (tracks st) \<and>
   (no_tracks \<in> set (grid_children (App_frontend st))) = (tracks st = [] \<and> \<not> isReloading st) \<and>
   cards (home st') = (if isLoggedIn st' then map card (enumerate 0 (tracks st')) else []) \<and>
   length (cards (home st')) = (if isLoggedIn st' then length (tracks st') else 0) \<and>
   (no_tracks \<in> set (grid_children (home st'))) =
     (isLoggedIn st' \<and> tracks st' = [] \<and> \<not> isReloading st') \<and>
   (\<forall>i < length ts.
      map card (enumerate 0 ts) ! i =
        Element ''div'' [(''key'', nat_to_string i), (''className'', ''card'')]
          [Element ''img'' [(''src'', album_image (ts ! i)), (''alt'', name (ts ! i))] [],
           Element ''h3'' [] [Text (name (ts ! i))],
           Element ''p'' [] [Text (join '', '' (artists (ts ! i)))]])"
proof -
  have front: "cards (App_frontend st) = map card (enumerate 0 (tracks st))"
    by (simp add: cards_def grid_children_frontend no_tracks_is_no_card)
  have routed: "cards (home st') = (if isLoggedIn st' then map card (enumerate 0 (tracks st')) else [])"
    by (simp add: cards_def grid_children_home no_tracks_is_no_card)
  have msg_front: "(no_tracks \<in> set (grid_children (App_frontend st))) =
      (tracks st = [] \<and> \<not> isReloading st)"
    using no_tracks_is_no_card(1) [of "enumerate 0 (tracks st)"]
    by (auto simp: grid_children_frontend)
  have msg_routed: "(no_tracks \<in> set (grid_children (home st'))) =
      (isLoggedIn st' \<and> tracks st' = [] \<and> \<not> isReloading st')"
    using no_tracks_is_no_card(1) [of "enumerate 0 (tracks st')"]
    by (auto simp: grid_children_home)
  from front routed msg_front msg_routed nth_card [of _ ts] show ?thesis by simp
qed

theorem card_grid_shows_tracks_witness:
  "(1::nat) < length [\<lparr>name = ''One'', artists = [''A''], album_image = ''1.png''\<rparr>,
                      \<lparr>name = ''Two'', artists = [''B'', ''C''], album_image = ''2.png''\<rparr>] \<and>
   map card (enumerate 0 [\<lparr>name = ''One'', artists = [''A''], album_image = ''1.png''\<rparr>,
                          \<lparr>name = ''Two'', artists = [''B'', ''C''], album_image = ''2.png''\<rparr>]) ! 1 =
     Element ''div'' [(''key'', ''1''), (''className'', ''card'')]
       [Element ''img'' [(''src'', ''2.png''), (''alt'', ''Two'')] [],
        Element ''h3'' [] [Text ''Two''],
        Element ''p'' [] [Text ''B, C'']]"
proof -
  have len: "(1::nat) < length [\<lparr>name = ''One'', artists = [''A''], album_image = ''1.png''\<rparr>,
                      \<lparr>name = ''Two'', artists = [''B'', ''C''], album_image = ''2.png''\<rparr>]"
    by simp
  have one: "nat_to_string 1 = ''1''"
    by code_simp
  from card_grid_shows_tracks [where st = initial_wrap_state and st' = initial_app_state
      and ts = "[\<lparr>name = ''One'', artists = [''A''], album_image = ''1.png''\<rparr>,
                      \<lparr>name = ''Two'', artists = [''B'', ''C''], album_image = ''2.png''\<rparr>]"]
  have "\<forall>i < length [\<lparr>name = ''One'', artists = [''A''], album_image = ''1.png''\<rparr>,
                      \<lparr>name = ''Two'', artists = [''B'', ''C''], album_image = ''2.png''\<rparr>].
      map card (enumerate 0 [\<lparr>name = ''One'', artists = [''A''], album_image = ''1.png''\<rparr>,
                      \<lparr>name = ''Two'', artists = [''B'', ''C''], album_image = ''2.png''\<rparr>]) ! i =
        Element ''div'' [(''key'', nat_to_string i), (''className'', ''card'')]
          [Element ''img'' [(''src'', album_image ([\<lparr>name = ''One'', artists = [''A''], album_image = ''1.png''\<rparr>,
                      \<lparr>name = ''Two'', artists = [''B'', ''C''], album_image = ''2.png''\<rparr>] ! i)),
             (''alt'', name ([\<lparr>name = ''One'', artists = [''A''], album_image = ''1.png''\<rparr>,
                      \<lparr>name = ''Two'', artists = [''B'', ''C''], album_image = ''2.png''\<rparr>] ! i))] [],
           Element ''h3'' [] [Text (name ([\<lparr>name = ''One'', artists = [''A''], album_image = ''1.png''\<rparr>,
                      \<lparr>name = ''Two'', artists = [''B'', ''C''], album_image = ''2.png''\<rparr>] ! i))],
           Element ''p'' [] [Text (join '', '' (artists ([\<lparr>name = ''One'', artists = [''A''], album_image = ''1.png''\<rparr>,
                      \<lparr>name = ''Two'', artists = [''B'', ''C''], album_image = ''2.png''\<rparr>] ! i)))]]"
    by blast
  from this [rule_format, OF len] len one show ?thesis by simp
qed


end
